theory Spec2Isabelle
  imports Main "HOL-Library.Word"
begin

unbundle bit_operations_syntax

section \<open>Safety types (safety\_types.h)\<close>

text \<open>
  The enumerations \<open>safety_state_t\<close>, \<open>fault_type_t\<close> and \<open>recovery_result_t\<close> hold
  codes up to \<open>0xFF\<close> and are compared, together with their stored complements, against
  \<open>0xFF\<close>. They are modelled as bytes: a dual-rail value is a pair of 8-bit words, and
  eight bits is the width at which \<open>x\<close> and the stored \<open>~x\<close> XOR to \<open>0xFF\<close>, as every
  check in the sources takes for granted (an enumeration kept in a wider container would
  fail each of them).
\<close>

type_synonym safety_state_t = "8 word"
type_synonym fault_type_t = "8 word"
type_synonym recovery_result_t = "8 word"

definition SAFETY_STATE_INIT :: safety_state_t where "SAFETY_STATE_INIT = 0x55"
definition SAFETY_STATE_NORMAL :: safety_state_t where "SAFETY_STATE_NORMAL = 0xAA"
definition SAFETY_STATE_FAULT :: safety_state_t where "SAFETY_STATE_FAULT = 0xCC"
definition SAFETY_STATE_SAFE_STATE :: safety_state_t where "SAFETY_STATE_SAFE_STATE = 0x33"
definition SAFETY_STATE_RECOVERY :: safety_state_t where "SAFETY_STATE_RECOVERY = 0x99"
definition SAFETY_STATE_INVALID :: safety_state_t where "SAFETY_STATE_INVALID = 0xFF"

definition FAULT_TYPE_NONE :: fault_type_t where "FAULT_TYPE_NONE = 0x00"
definition FAULT_TYPE_VDD :: fault_type_t where "FAULT_TYPE_VDD = 0x01"
definition FAULT_TYPE_CLK :: fault_type_t where "FAULT_TYPE_CLK = 0x02"
definition FAULT_TYPE_MEM_ECC :: fault_type_t where "FAULT_TYPE_MEM_ECC = 0x04"
definition FAULT_TYPE_MULTIPLE :: fault_type_t where "FAULT_TYPE_MULTIPLE = 0x07"
definition FAULT_TYPE_INVALID :: fault_type_t where "FAULT_TYPE_INVALID = 0xFF"

definition RECOVERY_PENDING :: recovery_result_t where "RECOVERY_PENDING = 0x00"
definition RECOVERY_SUCCESS :: recovery_result_t where "RECOVERY_SUCCESS = 0xAA"
definition RECOVERY_FAILED :: recovery_result_t where "RECOVERY_FAILED = 0x55"
definition RECOVERY_TIMEOUT :: recovery_result_t where "RECOVERY_TIMEOUT = 0xCC"
definition RECOVERY_INVALID :: recovery_result_t where "RECOVERY_INVALID = 0xFF"

text \<open>\<open>fault_flags_t\<close>; the two reserved bytes are never read or written.\<close>

record fault_flags_t =
  pwr_fault :: "8 word"
  pwr_fault_cmp :: "8 word"
  clk_fault :: "8 word"
  clk_fault_cmp :: "8 word"
  mem_fault :: "8 word"
  mem_fault_cmp :: "8 word"

record safety_status_t =
  current_state :: safety_state_t
  current_state_cmp :: safety_state_t
  active_faults :: fault_type_t
  active_faults_cmp :: fault_type_t
  recovery_status :: recovery_result_t
  fault_count :: "16 word"
  timestamp_ms :: "32 word"
  fault_flags :: fault_flags_t

text \<open>The macros \<open>VERIFY_FAULT_FLAG\<close> and \<open>VERIFY_STATE\<close>.\<close>

definition VERIFY_FAULT_FLAG :: "8 word \<Rightarrow> 8 word \<Rightarrow> bool" where
  "VERIFY_FAULT_FLAG flag cmp_flag \<longleftrightarrow> flag XOR cmp_flag = 0xFF"

definition VERIFY_STATE :: "8 word \<Rightarrow> 8 word \<Rightarrow> bool" where
  "VERIFY_STATE state state_cmp \<longleftrightarrow> state XOR state_cmp = 0xFF"

section \<open>Safety FSM (safety\_fsm.c)\<close>

text \<open>The file-scope variables \<open>g_safety_status\<close> and \<open>g_fsm_initialized\<close>.\<close>

record fsm_globals =
  g_safety_status :: safety_status_t
  g_fsm_initialized :: bool

text \<open>Their static initialisers: the state of the module at boot.\<close>

definition fsm_boot :: fsm_globals where
  "fsm_boot =
     \<lparr> g_safety_status =
         \<lparr> current_state = SAFETY_STATE_INIT,
           current_state_cmp = NOT SAFETY_STATE_INIT,
           active_faults = FAULT_TYPE_NONE,
           active_faults_cmp = NOT FAULT_TYPE_NONE,
           recovery_status = RECOVERY_PENDING,
           fault_count = 0,
           timestamp_ms = 0,
           fault_flags =
             \<lparr> pwr_fault = 0x00, pwr_fault_cmp = 0xFF,
               clk_fault = 0x00, clk_fault_cmp = 0xFF,
               mem_fault = 0x00, mem_fault_cmp = 0xFF \<rparr> \<rparr>,
       g_fsm_initialized = False \<rparr>"

definition g_transition_matrix :: "bool list list" where
  "g_transition_matrix =
     [ [False, True,  False, False, False, False],
       [False, True,  True,  True,  False, False],
       [False, False, True,  True,  True,  False],
       [False, False, False, True,  True,  False],
       [False, True,  True,  True,  True,  False],
       [False, False, False, False, False, False] ]"

definition fsm_state_to_index :: "safety_state_t \<Rightarrow> nat" where
  "fsm_state_to_index state =
     (if state = SAFETY_STATE_INIT then 0
      else if state = SAFETY_STATE_NORMAL then 1
      else if state = SAFETY_STATE_FAULT then 2
      else if state = SAFETY_STATE_SAFE_STATE then 3
      else if state = SAFETY_STATE_RECOVERY then 4
      else if state = SAFETY_STATE_INVALID then 5
      else 5)"

text \<open>The matrix lookup \<open>g_transition_matrix[current_idx][next_idx]\<close>.\<close>

definition transition_allowed :: "safety_state_t \<Rightarrow> safety_state_t \<Rightarrow> bool" where
  "transition_allowed cur nxt =
     g_transition_matrix ! fsm_state_to_index cur ! fsm_state_to_index nxt"

definition fsm_init :: "fsm_globals \<Rightarrow> bool \<times> fsm_globals" where
  "fsm_init g =
     (if g_fsm_initialized g then (False, g)
      else
        (True,
         g \<lparr> g_safety_status :=
               (g_safety_status g)
                 \<lparr> current_state := SAFETY_STATE_INIT,
                   current_state_cmp := NOT SAFETY_STATE_INIT,
                   active_faults := FAULT_TYPE_NONE,
                   active_faults_cmp := NOT FAULT_TYPE_NONE,
                   fault_flags :=
                     \<lparr> pwr_fault = 0x00, pwr_fault_cmp = 0xFF,
                       clk_fault = 0x00, clk_fault_cmp = 0xFF,
                       mem_fault = 0x00, mem_fault_cmp = 0xFF \<rparr>,
                   fault_count := 0,
                   recovery_status := RECOVERY_PENDING,
                   timestamp_ms := 0 \<rparr>,
             g_fsm_initialized := True \<rparr>))"

definition fsm_transition :: "safety_state_t \<Rightarrow> fsm_globals \<Rightarrow> bool \<times> fsm_globals" where
  "fsm_transition next_state g =
     (if \<not> g_fsm_initialized g then (False, g)
      else if \<not> transition_allowed (current_state (g_safety_status g)) next_state then
        (False,
         g \<lparr> g_safety_status :=
               (g_safety_status g)
                 \<lparr> current_state := SAFETY_STATE_INVALID,
                   current_state_cmp := NOT SAFETY_STATE_INVALID \<rparr> \<rparr>)
      else
        (True,
         g \<lparr> g_safety_status :=
               (g_safety_status g)
                 \<lparr> current_state := next_state,
                   current_state_cmp := NOT next_state,
                   timestamp_ms := 0 \<rparr> \<rparr>))"

definition fsm_get_state :: "fsm_globals \<Rightarrow> safety_state_t" where
  "fsm_get_state g =
     (let current = current_state (g_safety_status g);
          complement = current_state_cmp (g_safety_status g)
      in if current XOR complement \<noteq> 0xFF then SAFETY_STATE_INVALID else current)"

text \<open>
  Output pointers: the argument says whether the pointer is non-\<open>NULL\<close>, and the
  result carries the value the call stored through it, \<open>None\<close> when it stored nothing.
\<close>

definition fsm_get_status :: "fsm_globals \<Rightarrow> bool \<Rightarrow> bool \<times> safety_status_t option" where
  "fsm_get_status g status_nonnull =
     (if \<not> status_nonnull then (False, None)
      else if current_state (g_safety_status g) XOR current_state_cmp (g_safety_status g)
                \<noteq> 0xFF
      then (False, None)
      else if active_faults (g_safety_status g) XOR active_faults_cmp (g_safety_status g)
                \<noteq> 0xFF
      then (False, None)
      else (True, Some (g_safety_status g)))"

definition fsm_aggregate_faults :: "fsm_globals \<Rightarrow> bool \<times> fsm_globals" where
  "fsm_aggregate_faults g =
     (let current_state = fsm_get_state g;
          ff = fault_flags (g_safety_status g)
      in
      if current_state = SAFETY_STATE_INVALID then (False, g)
      else if \<not> VERIFY_FAULT_FLAG (pwr_fault ff) (pwr_fault_cmp ff) then (False, g)
      else
        let a1 = (if pwr_fault ff \<noteq> 0 then FAULT_TYPE_NONE OR FAULT_TYPE_VDD
                  else FAULT_TYPE_NONE)
        in
        if \<not> VERIFY_FAULT_FLAG (clk_fault ff) (clk_fault_cmp ff) then (False, g)
        else
          let a2 = (if clk_fault ff \<noteq> 0 then a1 OR FAULT_TYPE_CLK else a1)
          in
          if \<not> VERIFY_FAULT_FLAG (mem_fault ff) (mem_fault_cmp ff) then (False, g)
          else
            let aggregated = (if mem_fault ff \<noteq> 0 then a2 OR FAULT_TYPE_MEM_ECC else a2);
                g1 = g \<lparr> g_safety_status :=
                           (g_safety_status g)
                             \<lparr> active_faults := aggregated,
                               active_faults_cmp := NOT aggregated \<rparr> \<rparr>
            in
            if aggregated \<noteq> FAULT_TYPE_NONE then
              let g2 = g1 \<lparr> g_safety_status :=
                              (g_safety_status g1)
                                \<lparr> fault_count := fault_count (g_safety_status g1) + 1 \<rparr> \<rparr>
              in
              if current_state = SAFETY_STATE_NORMAL
              then fsm_transition SAFETY_STATE_FAULT g2
              else (True, g2)
            else (True, g1))"

definition fsm_clear_faults :: "fault_type_t \<Rightarrow> fsm_globals \<Rightarrow> bool \<times> fsm_globals" where
  "fsm_clear_faults faults_to_clear g =
     (let ff0 = fault_flags (g_safety_status g);
          ff1 = (if faults_to_clear AND FAULT_TYPE_VDD \<noteq> 0
                 then ff0 \<lparr> pwr_fault := 0x00, pwr_fault_cmp := 0xFF \<rparr> else ff0);
          ff2 = (if faults_to_clear AND FAULT_TYPE_CLK \<noteq> 0
                 then ff1 \<lparr> clk_fault := 0x00, clk_fault_cmp := 0xFF \<rparr> else ff1);
          ff3 = (if faults_to_clear AND FAULT_TYPE_MEM_ECC \<noteq> 0
                 then ff2 \<lparr> mem_fault := 0x00, mem_fault_cmp := 0xFF \<rparr> else ff2)
      in fsm_aggregate_faults
           (g \<lparr> g_safety_status := (g_safety_status g) \<lparr> fault_flags := ff3 \<rparr> \<rparr>))"


text \<open>
  Task-context calls on the FSM, as a datatype, and a sequence of them run in order
  (each call's boolean result is dropped, the globals are threaded through).
\<close>

datatype fsm_op = Transition safety_state_t | Aggregate | ClearFaults fault_type_t

fun fsm_apply :: "fsm_op \<Rightarrow> fsm_globals \<Rightarrow> fsm_globals" where
  "fsm_apply (Transition n) g = snd (fsm_transition n g)"
| "fsm_apply Aggregate g = snd (fsm_aggregate_faults g)"
| "fsm_apply (ClearFaults m) g = snd (fsm_clear_faults m g)"

fun fsm_run :: "fsm_op list \<Rightarrow> fsm_globals \<Rightarrow> fsm_globals" where
  "fsm_run [] g = g"
| "fsm_run (x # xs) g = fsm_run xs (fsm_apply x g)"

section \<open>Interrupt entry (interrupt\_handler.c)\<close>

record isr_globals =
  g_isr_call_counts :: "32 word list"
  g_isr_last_timestamp :: "32 word list"
  g_isr_nesting_level :: "8 word list"

definition isr_boot :: isr_globals where
  "isr_boot =
     \<lparr> g_isr_call_counts = [0, 0, 0],
       g_isr_last_timestamp = [0, 0, 0],
       g_isr_nesting_level = [0, 0, 0] \<rparr>"

text \<open>
  \<open>vdd_isr_handler\<close>. The hard halt \<open>while (1) { }\<close> never returns: \<open>None\<close>. The
  assembly block loads a constant into \<open>R0\<close> and stores nothing: its comments name a
  store to \<open>g_safety_status.fault_flags.pwr_fault\<close>, but the block has no store
  instruction and no operand, and \<open>g_safety_status\<close> is local to \<open>safety_fsm.c\<close>. The
  handler therefore changes its own counters only.
\<close>

definition vdd_isr_handler :: "isr_globals \<Rightarrow> isr_globals option" where
  "vdd_isr_handler i =
     (let i1 = i \<lparr> g_isr_nesting_level :=
                    (g_isr_nesting_level i) [0 := g_isr_nesting_level i ! 0 + 1] \<rparr>
      in
      if g_isr_nesting_level i1 ! 0 > 2 then None
      else
        let i2 = i1 \<lparr> g_isr_call_counts :=
                        (g_isr_call_counts i1) [0 := g_isr_call_counts i1 ! 0 + 1] \<rparr>;
            i3 = i2 \<lparr> g_isr_last_timestamp := (g_isr_last_timestamp i2) [0 := 0] \<rparr>;
            i4 = i3 \<lparr> g_isr_nesting_level :=
                        (g_isr_nesting_level i3) [0 := g_isr_nesting_level i3 ! 0 - 1] \<rparr>
        in Some i4)"

text \<open>
  A setting of the VDD flag pair in the FSM's status: the dual store the handler's
  comments describe (\<open>pwr_fault = 0xAA\<close>, \<open>pwr_fault_cmp = 0x55\<close>), with the value as
  a parameter and the complement its bitwise inverse. No function of the sources
  performs it; it serves to write down a state of the flags.
\<close>

definition isr_store_pwr_fault :: "8 word \<Rightarrow> fsm_globals \<Rightarrow> fsm_globals" where
  "isr_store_pwr_fault v g =
     g \<lparr> g_safety_status :=
           (g_safety_status g)
             \<lparr> fault_flags :=
                 (fault_flags (g_safety_status g)) \<lparr> pwr_fault := v, pwr_fault_cmp := NOT v \<rparr> \<rparr> \<rparr>"

section \<open>Fault aggregator (fault\_aggregator.c)\<close>

text \<open>
  The aggregator's own variables. The priority configuration \<open>g_fault_priorities\<close> is
  read by no function modelled here.
\<close>

record aggregator_globals =
  g_aggregator_busy :: bool
  g_last_aggregation_ms :: "32 word"
  g_aggregation_attempts :: "32 word"

definition aggregator_boot :: aggregator_globals where
  "aggregator_boot =
     \<lparr> g_aggregator_busy = False, g_last_aggregation_ms = 0, g_aggregation_attempts = 0 \<rparr>"

text \<open>
  \<open>fault_aggregate\<close>: the result is the return value, the aggregator's and the FSM's
  globals, and the value stored through \<open>aggregated_faults\<close> if any. The flags are read
  from the copy \<open>fsm_get_status\<close> made.
\<close>

definition fault_aggregate ::
  "aggregator_globals \<Rightarrow> fsm_globals \<Rightarrow> bool
     \<Rightarrow> bool \<times> aggregator_globals \<times> fsm_globals \<times> fault_type_t option" where
  "fault_aggregate a g aggregated_faults_nonnull =
     (if \<not> aggregated_faults_nonnull then (False, a, g, None)
      else if g_aggregator_busy a then (False, a, g, None)
      else
        let a1 = a \<lparr> g_aggregator_busy := True,
                     g_aggregation_attempts := g_aggregation_attempts a + 1 \<rparr>
        in
        case fsm_get_status g True of
          (False, _) \<Rightarrow> (False, a1 \<lparr> g_aggregator_busy := False \<rparr>, g, None)
        | (True, None) \<Rightarrow> (False, a1 \<lparr> g_aggregator_busy := False \<rparr>, g, None)
        | (True, Some current_status) \<Rightarrow>
            let ff = fault_flags current_status in
            if \<not> VERIFY_FAULT_FLAG (pwr_fault ff) (pwr_fault_cmp ff)
            then (False, a1 \<lparr> g_aggregator_busy := False \<rparr>, g, None)
            else
              let r1 = (if pwr_fault ff \<noteq> 0 then FAULT_TYPE_NONE OR FAULT_TYPE_VDD
                        else FAULT_TYPE_NONE)
              in
              if \<not> VERIFY_FAULT_FLAG (clk_fault ff) (clk_fault_cmp ff)
              then (False, a1 \<lparr> g_aggregator_busy := False \<rparr>, g, None)
              else
                let r2 = (if clk_fault ff \<noteq> 0 then r1 OR FAULT_TYPE_CLK else r1)
                in
                if \<not> VERIFY_FAULT_FLAG (mem_fault ff) (mem_fault_cmp ff)
                then (False, a1 \<lparr> g_aggregator_busy := False \<rparr>, g, None)
                else
                  let result = (if mem_fault ff \<noteq> 0 then r2 OR FAULT_TYPE_MEM_ECC else r2);
                      highest_priority_fault =
                        (if result AND FAULT_TYPE_VDD \<noteq> 0 then FAULT_TYPE_VDD
                         else if result AND FAULT_TYPE_CLK \<noteq> 0 then FAULT_TYPE_CLK
                         else if result AND FAULT_TYPE_MEM_ECC \<noteq> 0 then FAULT_TYPE_MEM_ECC
                         else FAULT_TYPE_NONE)
                  in
                  (case fsm_aggregate_faults g of
                     (False, g') \<Rightarrow>
                       (False, a1 \<lparr> g_aggregator_busy := False \<rparr>, g',
                        Some highest_priority_fault)
                   | (True, g') \<Rightarrow>
                       (True, a1 \<lparr> g_last_aggregation_ms := 0, g_aggregator_busy := False \<rparr>,
                        g', Some highest_priority_fault)))"

text \<open>
  \<open>fault_get_highest_priority\<close>: the returned fault type and the value stored through
  \<open>priority\<close> (nothing when the pointer is \<open>NULL\<close>).
\<close>

definition fault_get_highest_priority ::
  "fsm_globals \<Rightarrow> bool \<Rightarrow> fault_type_t \<times> 8 word option" where
  "fault_get_highest_priority g priority_nonnull =
     (let wr = (\<lambda>v. if priority_nonnull then Some v else None) in
      case fsm_get_status g True of
        (True, Some status) \<Rightarrow>
          if active_faults status AND FAULT_TYPE_VDD \<noteq> 0 then (FAULT_TYPE_VDD, wr 1)
          else if active_faults status AND FAULT_TYPE_CLK \<noteq> 0 then (FAULT_TYPE_CLK, wr 2)
          else if active_faults status AND FAULT_TYPE_MEM_ECC \<noteq> 0
          then (FAULT_TYPE_MEM_ECC, wr 3)
          else (FAULT_TYPE_NONE, wr 0)
      | _ \<Rightarrow> (FAULT_TYPE_INVALID, wr 0xFF))"

section \<open>Clock-loss event handler (clk\_event\_handler.c)\<close>

text \<open>
  Modelled from the spec: the declaration of \<open>safety_result_t\<close> (its header
  \<open>power_api.h\<close> is not among the sources); the result taxonomy is
  \<open>OK\<close>, \<open>PENDING\<close>, \<open>ERROR\<close>, \<open>DCLS_ERROR\<close>.
\<close>

datatype safety_result_t = SAFETY_OK | SAFETY_PENDING | SAFETY_ERROR | SAFETY_DCLS_ERROR

record clk_handler_globals =
  clk_fault_event_count :: "32 word"
  clk_fault_flag :: "8 word"
  clk_fault_flag_complement :: "8 word"
  clk_loss_timestamp :: "32 word"
  clk_isr_nesting_level :: "8 word"

definition CLK_ISR_MAX_NESTING :: "8 word" where "CLK_ISR_MAX_NESTING = 8"
definition CLK_FAULT_FLAG_NOMINAL :: "8 word" where "CLK_FAULT_FLAG_NOMINAL = 0x00"
definition CLK_FAULT_FLAG_NOMINAL_COMPLEMENT :: "8 word" where
  "CLK_FAULT_FLAG_NOMINAL_COMPLEMENT = 0xFF"

definition clk_event_handler_init :: "clk_handler_globals \<Rightarrow> safety_result_t \<times> clk_handler_globals" where
  "clk_event_handler_init c =
     (let c1 = c \<lparr> clk_fault_event_count := 0, clk_loss_timestamp := 0,
                   clk_isr_nesting_level := 0,
                   clk_fault_flag := CLK_FAULT_FLAG_NOMINAL,
                   clk_fault_flag_complement := CLK_FAULT_FLAG_NOMINAL_COMPLEMENT \<rparr>
      in if clk_fault_flag c1 XOR clk_fault_flag_complement c1 \<noteq> 0xFF
         then (SAFETY_ERROR, c1) else (SAFETY_OK, c1))"

definition clk_event_handler_get_fault_flag ::
  "clk_handler_globals \<Rightarrow> bool \<Rightarrow> safety_result_t \<times> bool option" where
  "clk_event_handler_get_fault_flag c out_fault_detected_nonnull =
     (if \<not> out_fault_detected_nonnull then (SAFETY_ERROR, None)
      else
        let fault_copy = clk_fault_flag c;
            complement_copy = clk_fault_flag_complement c
        in if fault_copy XOR complement_copy \<noteq> 0xFF then (SAFETY_DCLS_ERROR, Some False)
           else (SAFETY_OK, Some (fault_copy \<noteq> 0)))"

definition clk_event_handler_clear_fault ::
  "clk_handler_globals \<Rightarrow> safety_result_t \<times> clk_handler_globals" where
  "clk_event_handler_clear_fault c =
     (let c1 = c \<lparr> clk_fault_flag := CLK_FAULT_FLAG_NOMINAL,
                   clk_fault_flag_complement := CLK_FAULT_FLAG_NOMINAL_COMPLEMENT \<rparr>
      in if clk_fault_flag c1 XOR clk_fault_flag_complement c1 \<noteq> 0xFF
         then (SAFETY_ERROR, c1) else (SAFETY_OK, c1))"

text \<open>
  The ISR in three parts, so that a nested invocation can be placed inside it: step 1
  (the nesting guard; the flag says whether the handler returned there), steps 2 to 4
  (flag, event counter, timestamp) and step 5 (the decrement).
\<close>

definition clk_isr_entry :: "clk_handler_globals \<Rightarrow> clk_handler_globals \<times> bool" where
  "clk_isr_entry c =
     (let c1 = c \<lparr> clk_isr_nesting_level := clk_isr_nesting_level c + 1 \<rparr>
      in if clk_isr_nesting_level c1 > CLK_ISR_MAX_NESTING
         then (c1 \<lparr> clk_fault_flag := 0xFF, clk_fault_flag_complement := 0xFF,
                    clk_isr_nesting_level := CLK_ISR_MAX_NESTING \<rparr>, True)
         else (c1, False))"

definition clk_isr_assert :: "clk_handler_globals \<Rightarrow> clk_handler_globals" where
  "clk_isr_assert c =
     (let c1 = c \<lparr> clk_fault_flag := 0x01 \<rparr>;
          c2 = c1 \<lparr> clk_fault_flag_complement := NOT (clk_fault_flag c1) \<rparr>;
          c3 = (if clk_fault_event_count c2 < 0xFFFFFFFF
                then c2 \<lparr> clk_fault_event_count := clk_fault_event_count c2 + 1 \<rparr> else c2)
      in c3 \<lparr> clk_loss_timestamp := clk_fault_event_count c3 \<rparr>)"

definition clk_isr_exit :: "clk_handler_globals \<Rightarrow> clk_handler_globals" where
  "clk_isr_exit c = c \<lparr> clk_isr_nesting_level := clk_isr_nesting_level c - 1 \<rparr>"

definition clk_event_handler_clk_loss_isr :: "clk_handler_globals \<Rightarrow> clk_handler_globals" where
  "clk_event_handler_clk_loss_isr c =
     (case clk_isr_entry c of
        (c1, True) \<Rightarrow> c1
      | (c1, False) \<Rightarrow> clk_isr_exit (clk_isr_assert c1))"

text \<open>
  Nested invocations. Each element of the list is one enclosing invocation and says where
  the next invocation interrupts it: after the nesting guard, or after the flag has been
  asserted. The innermost invocation runs uninterrupted; the depth is the length of the
  list plus one. An enclosing invocation that returns at its guard is not interrupted.
\<close>

datatype preempt_point = AfterGuard | AfterAssert

fun clk_isr_nested :: "preempt_point list \<Rightarrow> clk_handler_globals \<Rightarrow> clk_handler_globals" where
  "clk_isr_nested [] c = clk_event_handler_clk_loss_isr c"
| "clk_isr_nested (p # ps) c =
     (case clk_isr_entry c of
        (c1, True) \<Rightarrow> c1
      | (c1, False) \<Rightarrow>
          (case p of
             AfterGuard \<Rightarrow> clk_isr_exit (clk_isr_assert (clk_isr_nested ps c1))
           | AfterAssert \<Rightarrow> clk_isr_exit (clk_isr_nested ps (clk_isr_assert c1))))"

section \<open>ECC fault handler (ecc\_handler.c)\<close>

record mem_fault_state_t =
  mem_fault_flag :: "8 word"
  mem_fault_flag_complement :: "8 word"
  mem_isr_nesting_count :: "8 word"
  mem_fault_event_count :: "32 word"

record ecc_handler_state_t =
  handler_enabled :: bool
  total_sbe_events :: "16 word"
  total_mbe_events :: "16 word"
  last_error_type :: "8 word"
  last_error_position :: "8 word"
  last_error_timestamp :: "32 word"

record ecc_globals =
  mem_fault_state :: mem_fault_state_t
  ecc_handler_state :: ecc_handler_state_t

definition ECC_ISR_NESTING_MAX :: "8 word" where "ECC_ISR_NESTING_MAX = 8"

definition ecc_handler_init :: "ecc_globals \<Rightarrow> bool \<times> ecc_globals" where
  "ecc_handler_init e =
     (True,
      e \<lparr> mem_fault_state :=
            \<lparr> mem_fault_flag = 0x00, mem_fault_flag_complement = 0xFF,
              mem_isr_nesting_count = 0, mem_fault_event_count = 0 \<rparr>,
          ecc_handler_state :=
            \<lparr> handler_enabled = True, total_sbe_events = 0, total_mbe_events = 0,
              last_error_type = 0, last_error_position = 0, last_error_timestamp = 0 \<rparr> \<rparr>)"

text \<open>The ISR in two parts: the reentry guard with the increment, and the rest.\<close>

definition ecc_isr_entry :: "ecc_globals \<Rightarrow> ecc_globals \<times> bool" where
  "ecc_isr_entry e =
     (if mem_isr_nesting_count (mem_fault_state e) \<ge> ECC_ISR_NESTING_MAX
      then (e \<lparr> mem_fault_state :=
                  (mem_fault_state e)
                    \<lparr> mem_fault_flag := 0xFF, mem_fault_flag_complement := 0x00 \<rparr> \<rparr>, True)
      else (e \<lparr> mem_fault_state :=
                  (mem_fault_state e)
                    \<lparr> mem_isr_nesting_count :=
                        mem_isr_nesting_count (mem_fault_state e) + 1 \<rparr> \<rparr>, False))"

definition ecc_isr_assert :: "ecc_globals \<Rightarrow> ecc_globals" where
  "ecc_isr_assert e =
     (let m1 = (mem_fault_state e)
                 \<lparr> mem_fault_flag := 0x01, mem_fault_flag_complement := 0xFE \<rparr>;
          m2 = m1 \<lparr> mem_fault_event_count := mem_fault_event_count m1 + 1 \<rparr>;
          m3 = (if mem_fault_event_count m2 = 0
                then m2 \<lparr> mem_fault_event_count := 0xFFFFFFFF \<rparr> else m2)
      in e \<lparr> mem_fault_state := m3,
             ecc_handler_state := (ecc_handler_state e) \<lparr> last_error_timestamp := 0 \<rparr> \<rparr>)"

definition ecc_isr_exit :: "ecc_globals \<Rightarrow> ecc_globals" where
  "ecc_isr_exit e =
     e \<lparr> mem_fault_state :=
           (mem_fault_state e)
             \<lparr> mem_isr_nesting_count := mem_isr_nesting_count (mem_fault_state e) - 1 \<rparr> \<rparr>"

definition ecc_fault_isr :: "ecc_globals \<Rightarrow> ecc_globals" where
  "ecc_fault_isr e =
     (case ecc_isr_entry e of
        (e1, True) \<Rightarrow> e1
      | (e1, False) \<Rightarrow> ecc_isr_exit (ecc_isr_assert e1))"

fun ecc_isr_nested :: "preempt_point list \<Rightarrow> ecc_globals \<Rightarrow> ecc_globals" where
  "ecc_isr_nested [] e = ecc_fault_isr e"
| "ecc_isr_nested (p # ps) e =
     (case ecc_isr_entry e of
        (e1, True) \<Rightarrow> e1
      | (e1, False) \<Rightarrow>
          (case p of
             AfterGuard \<Rightarrow> ecc_isr_exit (ecc_isr_assert (ecc_isr_nested ps e1))
           | AfterAssert \<Rightarrow> ecc_isr_exit (ecc_isr_nested ps (ecc_isr_assert e1))))"

definition ecc_fault_is_active :: "ecc_globals \<Rightarrow> bool" where
  "ecc_fault_is_active e =
     (let check = mem_fault_flag (mem_fault_state e)
                    XOR mem_fault_flag_complement (mem_fault_state e)
      in if check \<noteq> 0xFF then False
         else mem_fault_flag (mem_fault_state e) \<noteq> 0x00)"

definition ecc_fault_clear :: "ecc_globals \<Rightarrow> bool \<times> ecc_globals" where
  "ecc_fault_clear e =
     (if \<not> ecc_fault_is_active e then (False, e)
      else
        let e1 = e \<lparr> mem_fault_state :=
                       (mem_fault_state e)
                         \<lparr> mem_fault_flag := 0x00, mem_fault_flag_complement := 0xFF \<rparr> \<rparr>;
            check = mem_fault_flag (mem_fault_state e1)
                      XOR mem_fault_flag_complement (mem_fault_state e1)
        in (check = 0xFF, e1))"

definition ecc_fault_detect_corruption :: "ecc_globals \<Rightarrow> bool" where
  "ecc_fault_detect_corruption e =
     (let check = mem_fault_flag (mem_fault_state e)
                    XOR mem_fault_flag_complement (mem_fault_state e)
      in check \<noteq> 0xFF)"

section \<open>Fault statistics (fault\_statistics.c)\<close>

record fault_statistics_t =
  vdd_faults_detected :: "32 word"
  vdd_faults_undetected :: "32 word"
  clk_faults_detected :: "32 word"
  clk_faults_undetected :: "32 word"
  mem_faults_detected :: "32 word"
  mem_faults_undetected :: "32 word"
  recovery_successes :: "32 word"
  recovery_failures :: "32 word"
  uptime_ms :: "64 word"
  last_update_ms :: "32 word"

record stats_globals =
  g_fault_stats :: fault_statistics_t
  g_stats_locked :: bool

definition stats_boot :: stats_globals where
  "stats_boot =
     \<lparr> g_fault_stats =
         \<lparr> vdd_faults_detected = 0, vdd_faults_undetected = 0,
           clk_faults_detected = 0, clk_faults_undetected = 0,
           mem_faults_detected = 0, mem_faults_undetected = 0,
           recovery_successes = 0, recovery_failures = 0,
           uptime_ms = 0, last_update_ms = 0 \<rparr>,
       g_stats_locked = False \<rparr>"

definition fault_stats_record_recovery_failure :: "stats_globals \<Rightarrow> bool \<times> stats_globals" where
  "fault_stats_record_recovery_failure st =
     (if g_stats_locked st then (False, st)
      else
        let st1 = st \<lparr> g_stats_locked := True \<rparr>;
            st2 = st1 \<lparr> g_fault_stats :=
                          (g_fault_stats st1)
                            \<lparr> recovery_failures := recovery_failures (g_fault_stats st1) + 1 \<rparr> \<rparr>;
            st3 = st2 \<lparr> g_fault_stats := (g_fault_stats st2) \<lparr> last_update_ms := 0 \<rparr> \<rparr>
        in (True, st3 \<lparr> g_stats_locked := False \<rparr>))"

text \<open>
  The arithmetic of \<open>fault_stats_calculate_dc\<close> after the \<open>switch\<close> has picked the two
  counters: the sum and the product are \<open>uint32_t\<close> and wrap, the quotient is cut to
  \<open>uint8_t\<close>, and the clamp looks at the byte.
\<close>

definition dc_percent_of :: "32 word \<Rightarrow> 32 word \<Rightarrow> 8 word" where
  "dc_percent_of detected undetected =
     (let total = detected + undetected
      in if total = 0 then 0
         else
           let dc = (ucast ((detected * 100) div total) :: 8 word)
           in if dc > 100 then 100 else dc)"

definition fault_stats_calculate_dc ::
  "stats_globals \<Rightarrow> fault_type_t \<Rightarrow> bool \<Rightarrow> bool \<times> 8 word option" where
  "fault_stats_calculate_dc st fault_type dc_percent_nonnull =
     (if \<not> dc_percent_nonnull then (False, None)
      else if fault_type = FAULT_TYPE_VDD then
        (True, Some (dc_percent_of (vdd_faults_detected (g_fault_stats st))
                                   (vdd_faults_undetected (g_fault_stats st))))
      else if fault_type = FAULT_TYPE_CLK then
        (True, Some (dc_percent_of (clk_faults_detected (g_fault_stats st))
                                   (clk_faults_undetected (g_fault_stats st))))
      else if fault_type = FAULT_TYPE_MEM_ECC then
        (True, Some (dc_percent_of (mem_faults_detected (g_fault_stats st))
                                   (mem_faults_undetected (g_fault_stats st))))
      else (False, None))"

definition fault_stats_get_total_faults :: "stats_globals \<Rightarrow> 32 word" where
  "fault_stats_get_total_faults st =
     vdd_faults_detected (g_fault_stats st)
       + clk_faults_detected (g_fault_stats st)
       + mem_faults_detected (g_fault_stats st)"

text \<open>
  \<open>fault_stats_get_fault_rate_per_hour\<close>: \<open>total_faults * 3600\<close> is a \<open>uint32_t\<close>
  product, widened to 64 bits for the division by \<open>uptime_ms\<close>; the quotient is cut to
  \<open>uint16_t\<close>.
\<close>

definition fault_stats_get_fault_rate_per_hour ::
  "stats_globals \<Rightarrow> bool \<Rightarrow> bool \<times> 16 word option" where
  "fault_stats_get_fault_rate_per_hour st fph_nonnull =
     (if \<not> fph_nonnull then (False, None)
      else
        let total_faults = fault_stats_get_total_faults st;
            uptime_hours = uptime_ms (g_fault_stats st) div (1000 * 60 * 60)
        in if uptime_hours = 0 then (True, Some 0)
           else (True,
                 Some (ucast ((ucast (total_faults * 3600) :: 64 word)
                                div uptime_ms (g_fault_stats st)))))"

section \<open>Clock recovery service (clk\_monitor\_service.c)\<close>

type_synonym clk_service_state_t = "8 word"

definition CLK_SERVICE_STATE_IDLE :: clk_service_state_t where
  "CLK_SERVICE_STATE_IDLE = 0x00"
definition CLK_SERVICE_STATE_FAULT_ACTIVE :: clk_service_state_t where
  "CLK_SERVICE_STATE_FAULT_ACTIVE = 0x01"
definition CLK_SERVICE_STATE_RECOVERY_PENDING :: clk_service_state_t where
  "CLK_SERVICE_STATE_RECOVERY_PENDING = 0x02"
definition CLK_SERVICE_STATE_RECOVERY_CONFIRMED :: clk_service_state_t where
  "CLK_SERVICE_STATE_RECOVERY_CONFIRMED = 0x03"

text \<open>The service's variables, with the function-static \<open>tick_count\<close> of the task.\<close>

record clk_service_globals =
  clk_service_state :: clk_service_state_t
  clk_recovery_timeout_counter :: "32 word"
  clk_stability_counter :: "32 word"
  clk_recovery_attempts :: "32 word"
  tick_count :: "32 word"

definition recovery_timeout_ticks :: "32 word" where "recovery_timeout_ticks = 10"
definition stability_check_duration :: "32 word" where "stability_check_duration = 5"

definition clk_service_handle_fault ::
  "clk_service_globals \<Rightarrow> safety_result_t \<times> clk_service_globals" where
  "clk_service_handle_fault s =
     (if clk_service_state s \<noteq> CLK_SERVICE_STATE_IDLE then (SAFETY_OK, s)
      else (SAFETY_OK,
            s \<lparr> clk_service_state := CLK_SERVICE_STATE_FAULT_ACTIVE,
                clk_recovery_timeout_counter := 0,
                clk_stability_counter := 0,
                clk_recovery_attempts := clk_recovery_attempts s + 1 \<rparr>))"

text \<open>
  The \<open>switch\<close> of \<open>clk_service_task\<close>, with the sampled hardware signal
  \<open>clk_fault_asserted\<close> as an argument.
\<close>

definition clk_service_step :: "bool \<Rightarrow> clk_service_globals \<Rightarrow> clk_service_globals" where
  "clk_service_step clk_fault_asserted s =
     (if clk_service_state s = CLK_SERVICE_STATE_IDLE then
        (if clk_fault_asserted
         then s \<lparr> clk_service_state := CLK_SERVICE_STATE_FAULT_ACTIVE,
                  clk_recovery_timeout_counter := 0,
                  clk_stability_counter := 0 \<rparr>
         else s)
      else if clk_service_state s = CLK_SERVICE_STATE_FAULT_ACTIVE then
        (let s1 = s \<lparr> clk_recovery_timeout_counter := clk_recovery_timeout_counter s + 1 \<rparr>
         in if clk_recovery_timeout_counter s1 \<ge> recovery_timeout_ticks
            then s1 \<lparr> clk_service_state := CLK_SERVICE_STATE_IDLE,
                      clk_recovery_timeout_counter := 0 \<rparr>
            else if \<not> clk_fault_asserted
            then s1 \<lparr> clk_service_state := CLK_SERVICE_STATE_RECOVERY_PENDING,
                      clk_stability_counter := 0 \<rparr>
            else s1)
      else if clk_service_state s = CLK_SERVICE_STATE_RECOVERY_PENDING then
        (if clk_fault_asserted
         then s \<lparr> clk_service_state := CLK_SERVICE_STATE_FAULT_ACTIVE,
                  clk_recovery_timeout_counter := 0,
                  clk_stability_counter := 0 \<rparr>
         else
           let s1 = s \<lparr> clk_stability_counter := clk_stability_counter s + 1 \<rparr>
           in if clk_stability_counter s1 \<ge> stability_check_duration
              then s1 \<lparr> clk_service_state := CLK_SERVICE_STATE_RECOVERY_CONFIRMED \<rparr>
              else s1)
      else if clk_service_state s = CLK_SERVICE_STATE_RECOVERY_CONFIRMED then
        (if clk_fault_asserted
         then s \<lparr> clk_service_state := CLK_SERVICE_STATE_FAULT_ACTIVE,
                  clk_recovery_timeout_counter := 0,
                  clk_stability_counter := 0 \<rparr>
         else s)
      else s \<lparr> clk_service_state := CLK_SERVICE_STATE_IDLE \<rparr>)"

text \<open>
  \<open>clk_service_task\<close> as written: the hardware read is a placeholder that reports the
  fault during the first five calls.
\<close>

definition clk_service_task :: "clk_service_globals \<Rightarrow> clk_service_globals" where
  "clk_service_task s =
     (let s1 = s \<lparr> tick_count := tick_count s + 1 \<rparr>;
          clk_fault_asserted = (if tick_count s1 > 5 then False else True)
      in clk_service_step clk_fault_asserted s1)"

text \<open>\<open>n\<close> consecutive calls of the task.\<close>

fun clk_service_task_calls :: "nat \<Rightarrow> clk_service_globals \<Rightarrow> clk_service_globals" where
  "clk_service_task_calls 0 s = s"
| "clk_service_task_calls (Suc n) s = clk_service_task_calls n (clk_service_task s)"

definition clk_service_init :: "clk_service_globals \<Rightarrow> safety_result_t \<times> clk_service_globals" where
  "clk_service_init s =
     (SAFETY_OK,
      s \<lparr> clk_service_state := CLK_SERVICE_STATE_IDLE,
          clk_recovery_timeout_counter := 0,
          clk_stability_counter := 0,
          clk_recovery_attempts := 0 \<rparr>)"

definition clk_service_request_recovery ::
  "clk_service_globals \<Rightarrow> safety_result_t \<times> clk_service_globals" where
  "clk_service_request_recovery s =
     (if clk_service_state s = CLK_SERVICE_STATE_IDLE then (SAFETY_OK, s)
      else if clk_service_state s = CLK_SERVICE_STATE_RECOVERY_CONFIRMED
      then (SAFETY_OK, s \<lparr> clk_service_state := CLK_SERVICE_STATE_IDLE \<rparr>)
      else if clk_service_state s = CLK_SERVICE_STATE_RECOVERY_PENDING
              \<or> clk_service_state s = CLK_SERVICE_STATE_FAULT_ACTIVE
      then (SAFETY_PENDING, s)
      else (SAFETY_ERROR, s))"

definition clk_service_reset_statistics ::
  "clk_service_globals \<Rightarrow> safety_result_t \<times> clk_service_globals" where
  "clk_service_reset_statistics s = (SAFETY_OK, s \<lparr> clk_recovery_attempts := 0 \<rparr>)"

text \<open>
  The calls that write the service's variables, and a sequence of them run in order.
\<close>

datatype clk_service_op = ServiceInit | HandleFault | RequestRecovery | Task | ResetStatistics

fun clk_service_apply :: "clk_service_op \<Rightarrow> clk_service_globals \<Rightarrow> clk_service_globals" where
  "clk_service_apply ServiceInit s = snd (clk_service_init s)"
| "clk_service_apply HandleFault s = snd (clk_service_handle_fault s)"
| "clk_service_apply RequestRecovery s = snd (clk_service_request_recovery s)"
| "clk_service_apply Task s = clk_service_task s"
| "clk_service_apply ResetStatistics s = snd (clk_service_reset_statistics s)"

fun clk_service_run :: "clk_service_op list \<Rightarrow> clk_service_globals \<Rightarrow> clk_service_globals" where
  "clk_service_run [] s = s"
| "clk_service_run (x # xs) s = clk_service_run xs (clk_service_apply x s)"

text \<open>
  The condition under which the next call of the task takes its timeout branch, and
  the bound that keeps the service away from it.
\<close>

definition timeout_due :: "clk_service_globals \<Rightarrow> bool" where
  "timeout_due s \<longleftrightarrow>
     clk_service_state s = CLK_SERVICE_STATE_FAULT_ACTIVE
       \<and> clk_recovery_timeout_counter s + 1 \<ge> recovery_timeout_ticks"

definition counter_bounded :: "clk_service_globals \<Rightarrow> bool" where
  "counter_bounded s \<longleftrightarrow>
     clk_service_state s \<noteq> CLK_SERVICE_STATE_FAULT_ACTIVE
       \<or> clk_recovery_timeout_counter s = 0
       \<or> (unat (tick_count s) \<le> 5
            \<and> unat (clk_recovery_timeout_counter s) \<le> unat (tick_count s) + 1)"

section \<open>The specification's aggregation rule, and scenario states\<close>

text \<open>
  The aggregation rule as the specification writes it:
  \<open>(flag_vdd ? VDD : 0) | (flag_clk ? CLK : 0) | (flag_mem ? MEM : 0)\<close>, a flag being
  set when its byte is non-zero.
\<close>

definition flags_or :: "fault_flags_t \<Rightarrow> fault_type_t" where
  "flags_or ff =
     (if pwr_fault ff \<noteq> 0 then FAULT_TYPE_VDD else 0)
       OR (if clk_fault ff \<noteq> 0 then FAULT_TYPE_CLK else 0)
       OR (if mem_fault ff \<noteq> 0 then FAULT_TYPE_MEM_ECC else 0)"

text \<open>The FSM is initialised and holds the pair \<open>INVALID\<close>, \<open>~INVALID\<close>.\<close>

definition invalid_latched :: "fsm_globals \<Rightarrow> bool" where
  "invalid_latched g \<longleftrightarrow>
     g_fsm_initialized g \<and> current_state (g_safety_status g) = SAFETY_STATE_INVALID
       \<and> current_state_cmp (g_safety_status g) = NOT SAFETY_STATE_INVALID"

text \<open>
  Settings of the clock and memory flag pairs, likewise (the handlers' comments name
  \<open>clk_fault = 0xCC\<close>, \<open>clk_fault_cmp = 0x33\<close> and \<open>mem_fault = 0xDD\<close>,
  \<open>mem_fault_cmp = 0x22\<close>).
\<close>

definition isr_store_clk_fault :: "8 word \<Rightarrow> fsm_globals \<Rightarrow> fsm_globals" where
  "isr_store_clk_fault v g =
     g \<lparr> g_safety_status :=
           (g_safety_status g)
             \<lparr> fault_flags :=
                 (fault_flags (g_safety_status g)) \<lparr> clk_fault := v, clk_fault_cmp := NOT v \<rparr> \<rparr> \<rparr>"

definition isr_store_mem_fault :: "8 word \<Rightarrow> fsm_globals \<Rightarrow> fsm_globals" where
  "isr_store_mem_fault v g =
     g \<lparr> g_safety_status :=
           (g_safety_status g)
             \<lparr> fault_flags :=
                 (fault_flags (g_safety_status g)) \<lparr> mem_fault := v, mem_fault_cmp := NOT v \<rparr> \<rparr> \<rparr>"

text \<open>
  Scenario states, with the flags asserted: S1 before its tick, and S2 (in \<open>NORMAL\<close>)
  before its tick.
\<close>

definition s1_before_tick :: fsm_globals where
  "s1_before_tick = isr_store_pwr_fault 0xAA (snd (fsm_init fsm_boot))"

definition s2_before_tick :: fsm_globals where
  "s2_before_tick =
     isr_store_mem_fault 0xDD
       (isr_store_clk_fault 0xCC
          (fsm_run [Transition SAFETY_STATE_NORMAL] (snd (fsm_init fsm_boot))))"

definition s2_after_tick :: fsm_globals where
  "s2_after_tick = snd (fsm_aggregate_faults s2_before_tick)"

text \<open>
  Handler states: the clock handler's static initialisers; the state
  \<open>ecc_handler_init\<close> leaves; each with the nesting counter at its maximum, as the
  ninth of nine nested invocations finds it; a memory flag pair with both halves
  \<open>0x01\<close>; and scenario S6, the clock flag's complement forced equal to its value.
\<close>

definition clk_boot :: clk_handler_globals where
  "clk_boot =
     \<lparr> clk_fault_event_count = 0, clk_fault_flag = 0x00, clk_fault_flag_complement = 0xFF,
       clk_loss_timestamp = 0, clk_isr_nesting_level = 0 \<rparr>"

definition ecc_after_init :: ecc_globals where
  "ecc_after_init =
     \<lparr> mem_fault_state =
         \<lparr> mem_fault_flag = 0x00, mem_fault_flag_complement = 0xFF,
           mem_isr_nesting_count = 0, mem_fault_event_count = 0 \<rparr>,
       ecc_handler_state =
         \<lparr> handler_enabled = True, total_sbe_events = 0, total_mbe_events = 0,
           last_error_type = 0, last_error_position = 0, last_error_timestamp = 0 \<rparr> \<rparr>"

definition clk_at_max :: clk_handler_globals where
  "clk_at_max = clk_boot \<lparr> clk_isr_nesting_level := CLK_ISR_MAX_NESTING \<rparr>"

definition ecc_at_max :: ecc_globals where
  "ecc_at_max =
     ecc_after_init
       \<lparr> mem_fault_state :=
           (mem_fault_state ecc_after_init) \<lparr> mem_isr_nesting_count := ECC_ISR_NESTING_MAX \<rparr> \<rparr>"

definition ecc_corrupt :: ecc_globals where
  "ecc_corrupt =
     ecc_after_init
       \<lparr> mem_fault_state :=
           (mem_fault_state ecc_after_init)
             \<lparr> mem_fault_flag := 0x01, mem_fault_flag_complement := 0x01 \<rparr> \<rparr>"

definition s6_corrupted :: fsm_globals where
  "s6_corrupted =
     (snd (fsm_init fsm_boot))
       \<lparr> g_safety_status :=
           (g_safety_status (snd (fsm_init fsm_boot)))
             \<lparr> fault_flags :=
                 (fault_flags (g_safety_status (snd (fsm_init fsm_boot))))
                   \<lparr> clk_fault_cmp :=
                       clk_fault (fault_flags (g_safety_status (snd (fsm_init fsm_boot)))) \<rparr> \<rparr> \<rparr>"

text \<open>
  The clock service's static initialisers, and scenario S4's start: the service after
  \<open>clk_service_handle_fault\<close>. Statistics with counters large enough for the DC
  product to pass 32 bits, and with one hour and half an hour of uptime.
\<close>

definition clk_service_boot :: clk_service_globals where
  "clk_service_boot =
     \<lparr> clk_service_state = CLK_SERVICE_STATE_IDLE,
       clk_recovery_timeout_counter = 0, clk_stability_counter = 0,
       clk_recovery_attempts = 0, tick_count = 0 \<rparr>"

definition s4_fault_active :: clk_service_globals where
  "s4_fault_active = snd (clk_service_handle_fault clk_service_boot)"

definition stats_dc_overflow :: stats_globals where
  "stats_dc_overflow =
     stats_boot \<lparr> g_fault_stats := (g_fault_stats stats_boot)
                     \<lparr> vdd_faults_detected := 42949673 \<rparr> \<rparr>"

definition stats_one_hour :: stats_globals where
  "stats_one_hour =
     stats_boot \<lparr> g_fault_stats := (g_fault_stats stats_boot)
                     \<lparr> vdd_faults_detected := 1000, uptime_ms := 3600000 \<rparr> \<rparr>"

definition stats_half_hour :: stats_globals where
  "stats_half_hour =
     stats_boot \<lparr> g_fault_stats := (g_fault_stats stats_boot)
                     \<lparr> vdd_faults_detected := 5, uptime_ms := 1800000 \<rparr> \<rparr>"

section \<open>Constants\<close>

lemmas safety_state_defs =
  SAFETY_STATE_INIT_def SAFETY_STATE_NORMAL_def SAFETY_STATE_FAULT_def
  SAFETY_STATE_SAFE_STATE_def SAFETY_STATE_RECOVERY_def SAFETY_STATE_INVALID_def

lemmas fault_type_defs =
  FAULT_TYPE_NONE_def FAULT_TYPE_VDD_def FAULT_TYPE_CLK_def FAULT_TYPE_MEM_ECC_def
  FAULT_TYPE_MULTIPLE_def FAULT_TYPE_INVALID_def

lemmas clk_service_state_defs =
  CLK_SERVICE_STATE_IDLE_def CLK_SERVICE_STATE_FAULT_ACTIVE_def
  CLK_SERVICE_STATE_RECOVERY_PENDING_def CLK_SERVICE_STATE_RECOVERY_CONFIRMED_def

section \<open>The safety FSM\<close>

lemma fsm_init_boot: "fsm_init fsm_boot = (True, fsm_boot \<lparr> g_fsm_initialized := True \<rparr>)"
  by (simp add: fsm_init_def fsm_boot_def)

subsection \<open>INVALID is a sink\<close>

lemma no_edge_out_of_INVALID: "\<not> transition_allowed SAFETY_STATE_INVALID n"
proof -
  have "fsm_state_to_index SAFETY_STATE_INVALID = 5"
    by (simp add: fsm_state_to_index_def safety_state_defs)
  moreover have "\<not> [False, False, False, False, False, False] ! fsm_state_to_index n"
    by (simp add: fsm_state_to_index_def)
  ultimately show ?thesis
    by (simp add: transition_allowed_def g_transition_matrix_def)
qed

lemma fsm_get_state_latched: "invalid_latched g \<Longrightarrow> fsm_get_state g = SAFETY_STATE_INVALID"
  by (simp add: invalid_latched_def fsm_get_state_def)

lemma fsm_transition_latched:
  "invalid_latched g \<Longrightarrow> invalid_latched (snd (fsm_transition n g))"
  by (simp add: invalid_latched_def fsm_transition_def no_edge_out_of_INVALID)

lemma fsm_aggregate_latched: "invalid_latched g \<Longrightarrow> fsm_aggregate_faults g = (False, g)"
  by (simp add: fsm_aggregate_faults_def fsm_get_state_latched Let_def)

lemma fsm_clear_latched:
  assumes "invalid_latched g"
  shows "invalid_latched (snd (fsm_clear_faults m g))"
proof -
  have "invalid_latched (g \<lparr> g_safety_status := (g_safety_status g) \<lparr> fault_flags := ff \<rparr> \<rparr>)"
    for ff
    using assms by (simp add: invalid_latched_def)
  then show ?thesis
    by (simp add: fsm_clear_faults_def Let_def fsm_aggregate_latched)
qed

lemma fsm_apply_latched: "invalid_latched g \<Longrightarrow> invalid_latched (fsm_apply x g)"
  by (cases x) (simp_all add: fsm_transition_latched fsm_aggregate_latched fsm_clear_latched)

lemma fsm_run_latched: "invalid_latched g \<Longrightarrow> invalid_latched (fsm_run xs g)"
  by (induction xs arbitrary: g) (simp_all add: fsm_apply_latched)

lemma fsm_transition_initialized:
  "g_fsm_initialized g \<Longrightarrow> g_fsm_initialized (snd (fsm_transition n g))"
  by (simp add: fsm_transition_def)

lemma fsm_run_transitions_initialized:
  "g_fsm_initialized g \<Longrightarrow> g_fsm_initialized (fsm_run (map Transition ns) g)"
  by (induction ns arbitrary: g) (simp_all add: fsm_transition_initialized)

lemma fsm_run_append: "fsm_run (xs @ ys) g = fsm_run ys (fsm_run xs g)"
  by (induction xs arbitrary: g) simp_all

lemma inadmissible_latches:
  "g_fsm_initialized g \<Longrightarrow> \<not> transition_allowed (current_state (g_safety_status g)) t
     \<Longrightarrow> invalid_latched (snd (fsm_transition t g))"
  by (simp add: fsm_transition_def invalid_latched_def)

text \<open>
  Claim C3. Take the initialised FSM and any sequence \<open>pre\<close> of \<open>fsm_transition\<close> calls,
  followed by a call \<open>fsm_transition t\<close> that the transition matrix does not admit at the
  state then current. From that point on \<open>fsm_get_state\<close> returns \<open>INVALID\<close>, and it
  still does after any further sequence \<open>ops\<close> of \<open>fsm_transition\<close>,
  \<open>fsm_aggregate_faults\<close> and \<open>fsm_clear_faults\<close> calls (\<open>ops\<close> may be empty): no edge
  leaves \<open>INVALID\<close>.
\<close>

theorem invalid_is_latched_forever:
  assumes "\<not> transition_allowed
              (current_state (g_safety_status
                 (fsm_run (map Transition pre) (snd (fsm_init fsm_boot))))) t"
  shows "fsm_get_state
           (fsm_run ops
              (fsm_run (map Transition pre @ [Transition t]) (snd (fsm_init fsm_boot))))
         = SAFETY_STATE_INVALID"
proof -
  let ?g = "fsm_run (map Transition pre) (snd (fsm_init fsm_boot))"
  have "g_fsm_initialized (snd (fsm_init fsm_boot))"
    by (simp add: fsm_init_boot)
  then have "g_fsm_initialized ?g"
    by (rule fsm_run_transitions_initialized)
  then have "invalid_latched (snd (fsm_transition t ?g))"
    using assms by (rule inadmissible_latches)
  then have "invalid_latched (fsm_run ops (snd (fsm_transition t ?g)))"
    by (rule fsm_run_latched)
  then show ?thesis
    by (simp add: fsm_run_append fsm_get_state_latched)
qed

theorem invalid_is_latched_forever_witness:
  "\<not> transition_allowed
       (current_state (g_safety_status
          (fsm_run (map Transition [SAFETY_STATE_NORMAL]) (snd (fsm_init fsm_boot)))))
       SAFETY_STATE_RECOVERY
   \<and> fsm_get_state
       (fsm_run [Transition SAFETY_STATE_NORMAL, Aggregate, ClearFaults FAULT_TYPE_MULTIPLE]
          (fsm_run (map Transition [SAFETY_STATE_NORMAL] @ [Transition SAFETY_STATE_RECOVERY])
             (snd (fsm_init fsm_boot))))
     = SAFETY_STATE_INVALID"
proof -
  have h: "\<not> transition_allowed
       (current_state (g_safety_status
          (fsm_run (map Transition [SAFETY_STATE_NORMAL]) (snd (fsm_init fsm_boot)))))
       SAFETY_STATE_RECOVERY"
    by code_simp
  show ?thesis
    using h invalid_is_latched_forever [OF h,
        of "[Transition SAFETY_STATE_NORMAL, Aggregate, ClearFaults FAULT_TYPE_MULTIPLE]"]
    by simp
qed

subsection \<open>Aggregation\<close>

text \<open>
  Claim C4. For every setting of the three per-source flag pairs in which each pair
  XORs to \<open>0xFF\<close>: when \<open>fsm_aggregate_faults\<close> returns true, \<open>active_faults\<close> is the
  bitwise OR of \<open>VDD\<close>, \<open>CLK\<close> and \<open>MEM\<close> over the flags that are set, and
  \<open>active_faults_cmp\<close> is its bitwise complement.
\<close>

theorem aggregate_is_or_of_flags:
  assumes "VERIFY_FAULT_FLAG (pwr_fault (fault_flags (g_safety_status g)))
             (pwr_fault_cmp (fault_flags (g_safety_status g)))"
    and "VERIFY_FAULT_FLAG (clk_fault (fault_flags (g_safety_status g)))
             (clk_fault_cmp (fault_flags (g_safety_status g)))"
    and "VERIFY_FAULT_FLAG (mem_fault (fault_flags (g_safety_status g)))
             (mem_fault_cmp (fault_flags (g_safety_status g)))"
    and "fsm_aggregate_faults g = (True, g')"
  shows "active_faults (g_safety_status g') = flags_or (fault_flags (g_safety_status g))
       \<and> active_faults_cmp (g_safety_status g')
           = NOT (flags_or (fault_flags (g_safety_status g)))
       \<and> fault_flags (g_safety_status g') = fault_flags (g_safety_status g)"
  using assms(4)
  by (auto simp add: fsm_aggregate_faults_def flags_or_def Let_def fsm_transition_def
      fault_type_defs split: if_splits)

theorem aggregate_is_or_of_flags_witness:
  "VERIFY_FAULT_FLAG (pwr_fault (fault_flags (g_safety_status s2_before_tick)))
     (pwr_fault_cmp (fault_flags (g_safety_status s2_before_tick)))
   \<and> VERIFY_FAULT_FLAG (clk_fault (fault_flags (g_safety_status s2_before_tick)))
       (clk_fault_cmp (fault_flags (g_safety_status s2_before_tick)))
   \<and> VERIFY_FAULT_FLAG (mem_fault (fault_flags (g_safety_status s2_before_tick)))
       (mem_fault_cmp (fault_flags (g_safety_status s2_before_tick)))
   \<and> fst (fsm_aggregate_faults s2_before_tick)
   \<and> active_faults (g_safety_status (snd (fsm_aggregate_faults s2_before_tick))) = 0x06
   \<and> active_faults_cmp (g_safety_status (snd (fsm_aggregate_faults s2_before_tick))) = 0xF9
   \<and> flags_or (fault_flags (g_safety_status s2_before_tick)) = 0x06"
proof -
  have v1: "VERIFY_FAULT_FLAG (pwr_fault (fault_flags (g_safety_status s2_before_tick)))
     (pwr_fault_cmp (fault_flags (g_safety_status s2_before_tick)))"
    by code_simp
  have v2: "VERIFY_FAULT_FLAG (clk_fault (fault_flags (g_safety_status s2_before_tick)))
     (clk_fault_cmp (fault_flags (g_safety_status s2_before_tick)))"
    by code_simp
  have v3: "VERIFY_FAULT_FLAG (mem_fault (fault_flags (g_safety_status s2_before_tick)))
     (mem_fault_cmp (fault_flags (g_safety_status s2_before_tick)))"
    by code_simp
  have ok: "fst (fsm_aggregate_faults s2_before_tick)"
    by code_simp
  then have run: "fsm_aggregate_faults s2_before_tick
                    = (True, snd (fsm_aggregate_faults s2_before_tick))"
    by (simp add: prod_eq_iff)
  have f: "flags_or (fault_flags (g_safety_status s2_before_tick)) = 0x06"
    by code_simp
  show ?thesis
    using v1 v2 v3 ok f aggregate_is_or_of_flags [OF v1 v2 v3 run] by simp
qed

subsection \<open>Scenario S1\<close>

text \<open>
  The VDD handler as written returns and changes nothing the FSM reads: after
  \<open>fsm_init\<close>, one invocation and one \<open>fsm_aggregate_faults\<close>, no fault is active,
  \<open>fault_count\<close> is 0 and the highest priority is \<open>NONE\<close> with output 0.
\<close>

lemma s1_handler_as_written:
  "vdd_isr_handler isr_boot
     = Some (isr_boot \<lparr> g_isr_call_counts := [1, 0, 0] \<rparr>)
   \<and> fst (fsm_aggregate_faults (snd (fsm_init fsm_boot)))
   \<and> active_faults (g_safety_status (snd (fsm_aggregate_faults (snd (fsm_init fsm_boot)))))
       = FAULT_TYPE_NONE
   \<and> fault_count (g_safety_status (snd (fsm_aggregate_faults (snd (fsm_init fsm_boot))))) = 0
   \<and> fault_get_highest_priority (snd (fsm_aggregate_faults (snd (fsm_init fsm_boot)))) True
       = (FAULT_TYPE_NONE, Some 0)
   \<and> fsm_get_state (snd (fsm_aggregate_faults (snd (fsm_init fsm_boot)))) = SAFETY_STATE_INIT"
  by code_simp

text \<open>
  Claim C1, as amended. Start from the module at boot and call \<open>fsm_init\<close> once (no
  transition to \<open>NORMAL\<close>). With the VDD flag holding an asserted pair (\<open>v\<close>, \<open>~v\<close>),
  \<open>v\<close> non-zero, one \<open>fsm_aggregate_faults\<close> succeeds, \<open>active_faults\<close> is \<open>VDD\<close>,
  \<open>fault_count\<close> is 1, \<open>fault_get_highest_priority\<close> returns \<open>VDD\<close> with priority 1,
  and the state read by \<open>fsm_get_state\<close> is still \<open>INIT\<close>: the aggregation moves the
  FSM to \<open>FAULT\<close> only from \<open>NORMAL\<close>.
\<close>

theorem s1_single_vdd_fault:
  assumes "v \<noteq> 0"
  shows "fst (fsm_init fsm_boot)
       \<and> fst (fsm_aggregate_faults (isr_store_pwr_fault v (snd (fsm_init fsm_boot))))
       \<and> active_faults (g_safety_status
            (snd (fsm_aggregate_faults (isr_store_pwr_fault v (snd (fsm_init fsm_boot))))))
           = FAULT_TYPE_VDD
       \<and> fsm_get_state
            (snd (fsm_aggregate_faults (isr_store_pwr_fault v (snd (fsm_init fsm_boot)))))
           = SAFETY_STATE_INIT
       \<and> fault_count (g_safety_status
            (snd (fsm_aggregate_faults (isr_store_pwr_fault v (snd (fsm_init fsm_boot))))))
           = 1
       \<and> fault_get_highest_priority
            (snd (fsm_aggregate_faults (isr_store_pwr_fault v (snd (fsm_init fsm_boot))))) True
           = (FAULT_TYPE_VDD, Some 1)"
proof -
  have g1: "isr_store_pwr_fault v (snd (fsm_init fsm_boot)) =
      \<lparr> g_safety_status =
         \<lparr> current_state = 0x55, current_state_cmp = 0xAA,
           active_faults = 0, active_faults_cmp = 0xFF,
           recovery_status = 0, fault_count = 0, timestamp_ms = 0,
           fault_flags =
             \<lparr> pwr_fault = v, pwr_fault_cmp = NOT v,
               clk_fault = 0x00, clk_fault_cmp = 0xFF,
               mem_fault = 0x00, mem_fault_cmp = 0xFF \<rparr> \<rparr>,
        g_fsm_initialized = True \<rparr>"
    by (simp add: fsm_init_def fsm_boot_def isr_store_pwr_fault_def safety_state_defs
        fault_type_defs RECOVERY_PENDING_def)
  have agg: "fsm_aggregate_faults (isr_store_pwr_fault v (snd (fsm_init fsm_boot))) =
      (True,
       \<lparr> g_safety_status =
           \<lparr> current_state = 0x55, current_state_cmp = 0xAA,
             active_faults = 0x01, active_faults_cmp = 0xFE,
             recovery_status = 0, fault_count = 1, timestamp_ms = 0,
             fault_flags =
               \<lparr> pwr_fault = v, pwr_fault_cmp = NOT v,
                 clk_fault = 0x00, clk_fault_cmp = 0xFF,
                 mem_fault = 0x00, mem_fault_cmp = 0xFF \<rparr> \<rparr>,
         g_fsm_initialized = True \<rparr>)"
    unfolding g1 using assms
    by (simp add: fsm_aggregate_faults_def fsm_get_state_def VERIFY_FAULT_FLAG_def Let_def
        safety_state_defs fault_type_defs)
  have i: "fst (fsm_init fsm_boot)"
    by (simp add: fsm_init_boot)
  show ?thesis
    unfolding agg using i
    by (simp add: fsm_get_state_def fault_get_highest_priority_def
        fsm_get_status_def safety_state_defs fault_type_defs)
qed

theorem s1_single_vdd_fault_witness:
  "(0xAA :: 8 word) \<noteq> 0
   \<and> fst (fsm_init fsm_boot)
   \<and> fst (fsm_aggregate_faults (isr_store_pwr_fault 0xAA (snd (fsm_init fsm_boot))))
   \<and> active_faults (g_safety_status
        (snd (fsm_aggregate_faults (isr_store_pwr_fault 0xAA (snd (fsm_init fsm_boot))))))
       = FAULT_TYPE_VDD
   \<and> fsm_get_state
        (snd (fsm_aggregate_faults (isr_store_pwr_fault 0xAA (snd (fsm_init fsm_boot)))))
       = SAFETY_STATE_INIT
   \<and> fault_count (g_safety_status
        (snd (fsm_aggregate_faults (isr_store_pwr_fault 0xAA (snd (fsm_init fsm_boot))))))
       = 1
   \<and> fault_get_highest_priority
        (snd (fsm_aggregate_faults (isr_store_pwr_fault 0xAA (snd (fsm_init fsm_boot))))) True
       = (FAULT_TYPE_VDD, Some 1)"
proof -
  have h: "(0xAA :: 8 word) \<noteq> 0" by simp
  show ?thesis
    using h s1_single_vdd_fault [OF h] by simp
qed

text \<open>
  As the claim is worded, the state after the tick would be \<open>FAULT\<close>. It is \<open>INIT\<close>,
  with the handler as written and with the flag asserted alike.
\<close>

theorem s1_state_is_not_FAULT:
  "fsm_get_state (snd (fsm_aggregate_faults (snd (fsm_init fsm_boot)))) \<noteq> SAFETY_STATE_FAULT
   \<and> fsm_get_state (snd (fsm_aggregate_faults s1_before_tick)) \<noteq> SAFETY_STATE_FAULT"
  by code_simp

subsection \<open>FAULT and the active faults\<close>

text \<open>
  Claim C2, as amended. When \<open>fsm_aggregate_faults\<close> takes the FSM from \<open>NORMAL\<close> to
  \<open>FAULT\<close>, \<open>active_faults\<close> is non-zero at that point. The FSM does not leave
  \<open>FAULT\<close> when the flags go away: in \<open>FAULT\<close>, with intact flag pairs, an
  \<open>fsm_clear_faults\<close> whose mask covers every asserted flag succeeds and leaves the state
  \<open>FAULT\<close> with \<open>active_faults\<close> zero.
\<close>

theorem fault_entry_and_clear:
  "(fsm_get_state g = SAFETY_STATE_NORMAL
      \<and> fsm_get_state (snd (fsm_aggregate_faults g)) = SAFETY_STATE_FAULT
    \<longrightarrow> active_faults (g_safety_status (snd (fsm_aggregate_faults g))) \<noteq> 0)
   \<and> (fsm_get_state g = SAFETY_STATE_FAULT
      \<and> VERIFY_FAULT_FLAG (pwr_fault (fault_flags (g_safety_status g)))
           (pwr_fault_cmp (fault_flags (g_safety_status g)))
      \<and> VERIFY_FAULT_FLAG (clk_fault (fault_flags (g_safety_status g)))
           (clk_fault_cmp (fault_flags (g_safety_status g)))
      \<and> VERIFY_FAULT_FLAG (mem_fault (fault_flags (g_safety_status g)))
           (mem_fault_cmp (fault_flags (g_safety_status g)))
      \<and> (pwr_fault (fault_flags (g_safety_status g)) = 0 \<or> m AND FAULT_TYPE_VDD \<noteq> 0)
      \<and> (clk_fault (fault_flags (g_safety_status g)) = 0 \<or> m AND FAULT_TYPE_CLK \<noteq> 0)
      \<and> (mem_fault (fault_flags (g_safety_status g)) = 0 \<or> m AND FAULT_TYPE_MEM_ECC \<noteq> 0)
    \<longrightarrow> fst (fsm_clear_faults m g)
       \<and> fsm_get_state (snd (fsm_clear_faults m g)) = SAFETY_STATE_FAULT
       \<and> active_faults (g_safety_status (snd (fsm_clear_faults m g))) = 0)"
proof (intro conjI impI)
  assume "fsm_get_state g = SAFETY_STATE_NORMAL
      \<and> fsm_get_state (snd (fsm_aggregate_faults g)) = SAFETY_STATE_FAULT"
  then show "active_faults (g_safety_status (snd (fsm_aggregate_faults g))) \<noteq> 0"
    by (auto simp add: fsm_aggregate_faults_def Let_def fsm_transition_def fsm_get_state_def
      safety_state_defs fault_type_defs split: if_splits)
next
  assume a: "fsm_get_state g = SAFETY_STATE_FAULT
      \<and> VERIFY_FAULT_FLAG (pwr_fault (fault_flags (g_safety_status g)))
           (pwr_fault_cmp (fault_flags (g_safety_status g)))
      \<and> VERIFY_FAULT_FLAG (clk_fault (fault_flags (g_safety_status g)))
           (clk_fault_cmp (fault_flags (g_safety_status g)))
      \<and> VERIFY_FAULT_FLAG (mem_fault (fault_flags (g_safety_status g)))
           (mem_fault_cmp (fault_flags (g_safety_status g)))
      \<and> (pwr_fault (fault_flags (g_safety_status g)) = 0 \<or> m AND FAULT_TYPE_VDD \<noteq> 0)
      \<and> (clk_fault (fault_flags (g_safety_status g)) = 0 \<or> m AND FAULT_TYPE_CLK \<noteq> 0)
      \<and> (mem_fault (fault_flags (g_safety_status g)) = 0 \<or> m AND FAULT_TYPE_MEM_ECC \<noteq> 0)"
  then have r: "fst (fsm_clear_faults m g)
       \<and> fsm_get_state (snd (fsm_clear_faults m g)) = SAFETY_STATE_FAULT
       \<and> active_faults (g_safety_status (snd (fsm_clear_faults m g))) = 0"
    by (auto simp add: fsm_clear_faults_def fsm_aggregate_faults_def Let_def fsm_get_state_def
      VERIFY_FAULT_FLAG_def safety_state_defs fault_type_defs split: if_splits)
  from r show "fst (fsm_clear_faults m g)" by simp
  from r show "fsm_get_state (snd (fsm_clear_faults m g)) = SAFETY_STATE_FAULT" by simp
  from r show "active_faults (g_safety_status (snd (fsm_clear_faults m g))) = 0" by simp
qed


theorem fault_entry_and_clear_witness:
  "fsm_get_state s2_before_tick = SAFETY_STATE_NORMAL
   \<and> fsm_get_state (snd (fsm_aggregate_faults s2_before_tick)) = SAFETY_STATE_FAULT
   \<and> active_faults (g_safety_status (snd (fsm_aggregate_faults s2_before_tick))) \<noteq> 0
   \<and> fsm_get_state s2_after_tick = SAFETY_STATE_FAULT
   \<and> fst (fsm_clear_faults FAULT_TYPE_MULTIPLE s2_after_tick)
   \<and> fsm_get_state (snd (fsm_clear_faults FAULT_TYPE_MULTIPLE s2_after_tick))
       = SAFETY_STATE_FAULT
   \<and> active_faults (g_safety_status (snd (fsm_clear_faults FAULT_TYPE_MULTIPLE s2_after_tick)))
       = 0"
proof -
  have n: "fsm_get_state s2_before_tick = SAFETY_STATE_NORMAL"
    by code_simp
  have f: "fsm_get_state (snd (fsm_aggregate_faults s2_before_tick)) = SAFETY_STATE_FAULT"
    by code_simp
  have p2: "fsm_get_state s2_after_tick = SAFETY_STATE_FAULT
      \<and> VERIFY_FAULT_FLAG (pwr_fault (fault_flags (g_safety_status s2_after_tick)))
           (pwr_fault_cmp (fault_flags (g_safety_status s2_after_tick)))
      \<and> VERIFY_FAULT_FLAG (clk_fault (fault_flags (g_safety_status s2_after_tick)))
           (clk_fault_cmp (fault_flags (g_safety_status s2_after_tick)))
      \<and> VERIFY_FAULT_FLAG (mem_fault (fault_flags (g_safety_status s2_after_tick)))
           (mem_fault_cmp (fault_flags (g_safety_status s2_after_tick)))
      \<and> (pwr_fault (fault_flags (g_safety_status s2_after_tick)) = 0
           \<or> FAULT_TYPE_MULTIPLE AND FAULT_TYPE_VDD \<noteq> 0)
      \<and> (clk_fault (fault_flags (g_safety_status s2_after_tick)) = 0
           \<or> FAULT_TYPE_MULTIPLE AND FAULT_TYPE_CLK \<noteq> 0)
      \<and> (mem_fault (fault_flags (g_safety_status s2_after_tick)) = 0
           \<or> FAULT_TYPE_MULTIPLE AND FAULT_TYPE_MEM_ECC \<noteq> 0)"
    by code_simp
  from n f fault_entry_and_clear [of s2_before_tick]
  have a: "active_faults (g_safety_status (snd (fsm_aggregate_faults s2_before_tick))) \<noteq> 0"
    by blast
  from p2 fault_entry_and_clear [of s2_after_tick FAULT_TYPE_MULTIPLE]
  have c: "fst (fsm_clear_faults FAULT_TYPE_MULTIPLE s2_after_tick)
       \<and> fsm_get_state (snd (fsm_clear_faults FAULT_TYPE_MULTIPLE s2_after_tick))
           = SAFETY_STATE_FAULT
       \<and> active_faults
            (g_safety_status (snd (fsm_clear_faults FAULT_TYPE_MULTIPLE s2_after_tick))) = 0"
    by blast
  from n f a p2 c show ?thesis
    by blast
qed

text \<open>
  As the claim is worded, \<open>FAULT\<close> would imply non-zero \<open>active_faults\<close> after any
  sequence of task-context calls. It does not after \<open>fsm_clear_faults\<close> has cleared the
  asserted flags in \<open>FAULT\<close>, nor after a plain \<open>fsm_transition\<close> from \<open>NORMAL\<close> to
  \<open>FAULT\<close>.
\<close>

theorem fault_with_no_active_faults:
  "\<not> (fsm_get_state (snd (fsm_clear_faults FAULT_TYPE_MULTIPLE s2_after_tick))
         = SAFETY_STATE_FAULT
       \<longrightarrow> active_faults
             (g_safety_status (snd (fsm_clear_faults FAULT_TYPE_MULTIPLE s2_after_tick))) \<noteq> 0)
   \<and> \<not> (fsm_get_state
           (fsm_run [Transition SAFETY_STATE_NORMAL, Transition SAFETY_STATE_FAULT]
              (snd (fsm_init fsm_boot))) = SAFETY_STATE_FAULT
        \<longrightarrow> active_faults (g_safety_status
              (fsm_run [Transition SAFETY_STATE_NORMAL, Transition SAFETY_STATE_FAULT]
                 (snd (fsm_init fsm_boot)))) \<noteq> 0)"
  by code_simp

section \<open>The fault-source handlers\<close>

subsection \<open>Nesting counters\<close>

lemma clk_isr_assert_level [simp]:
  "clk_isr_nesting_level (clk_isr_assert c) = clk_isr_nesting_level c"
  by (simp add: clk_isr_assert_def Let_def)

lemma clk_isr_exit_level [simp]:
  "clk_isr_nesting_level (clk_isr_exit c) = clk_isr_nesting_level c - 1"
  by (simp add: clk_isr_exit_def)

lemma level_step:
  fixes k :: "8 word"
  assumes "unat k < 8"
  shows "\<not> 8 < k + 1" and "unat (k + 1) = unat k + 1"
proof -
  have "unat k + unat (1 :: 8 word) < 2 ^ LENGTH(8)"
    using assms by simp
  then show u: "unat (k + 1) = unat k + 1"
    by (simp add: unat_add_lem [THEN iffD1])
  show "\<not> 8 < k + 1"
    using assms u by (simp add: word_less_nat_alt)
qed

lemma clk_isr_entry_below_max:
  assumes "unat (clk_isr_nesting_level c) < 8"
  shows "clk_isr_entry c = (c \<lparr> clk_isr_nesting_level := clk_isr_nesting_level c + 1 \<rparr>, False)"
  using level_step(1) [OF assms]
  by (simp add: clk_isr_entry_def Let_def CLK_ISR_MAX_NESTING_def)

lemma clk_isr_level_restored:
  assumes "unat (clk_isr_nesting_level c) < 8"
  shows "clk_isr_nesting_level (clk_event_handler_clk_loss_isr c) = clk_isr_nesting_level c"
  by (simp add: clk_event_handler_clk_loss_isr_def clk_isr_entry_below_max [OF assms])

lemma clk_isr_nested_level:
  "unat (clk_isr_nesting_level c) + length ps < 8
     \<Longrightarrow> clk_isr_nesting_level (clk_isr_nested ps c) = clk_isr_nesting_level c"
proof (induction ps arbitrary: c)
  case Nil
  then show ?case by (simp add: clk_isr_level_restored)
next
  case (Cons p ps)
  let ?c1 = "c \<lparr> clk_isr_nesting_level := clk_isr_nesting_level c + 1 \<rparr>"
  from Cons.prems have lt: "unat (clk_isr_nesting_level c) < 8" by simp
  have e: "clk_isr_entry c = (?c1, False)"
    by (rule clk_isr_entry_below_max [OF lt])
  have u: "unat (clk_isr_nesting_level ?c1) = unat (clk_isr_nesting_level c) + 1"
    using level_step(2) [OF lt] by simp
  have b1: "unat (clk_isr_nesting_level ?c1) + length ps < 8"
    using Cons.prems u by simp
  have b2: "unat (clk_isr_nesting_level (clk_isr_assert ?c1)) + length ps < 8"
    using b1 by simp
  have i1: "clk_isr_nesting_level (clk_isr_nested ps ?c1) = clk_isr_nesting_level c + 1"
    using Cons.IH [OF b1] by simp
  have i2: "clk_isr_nesting_level (clk_isr_nested ps (clk_isr_assert ?c1))
              = clk_isr_nesting_level c + 1"
    using Cons.IH [OF b2] by simp
  show ?case
    by (cases p) (simp_all add: e i1 i2)
qed

lemma clk_isr_at_max:
  assumes "clk_isr_nesting_level c = CLK_ISR_MAX_NESTING"
  shows "clk_event_handler_clk_loss_isr c
           = c \<lparr> clk_isr_nesting_level := CLK_ISR_MAX_NESTING,
                 clk_fault_flag := 0xFF, clk_fault_flag_complement := 0xFF \<rparr>"
  using assms
  by (simp add: clk_event_handler_clk_loss_isr_def clk_isr_entry_def Let_def
      CLK_ISR_MAX_NESTING_def)


lemma ecc_isr_assert_level [simp]:
  "mem_isr_nesting_count (mem_fault_state (ecc_isr_assert e))
     = mem_isr_nesting_count (mem_fault_state e)"
  by (simp add: ecc_isr_assert_def Let_def)

lemma ecc_isr_exit_level [simp]:
  "mem_isr_nesting_count (mem_fault_state (ecc_isr_exit e))
     = mem_isr_nesting_count (mem_fault_state e) - 1"
  by (simp add: ecc_isr_exit_def)

lemma ecc_isr_entry_below_max:
  assumes "unat (mem_isr_nesting_count (mem_fault_state e)) < 8"
  shows "ecc_isr_entry e =
           (e \<lparr> mem_fault_state :=
                  (mem_fault_state e)
                    \<lparr> mem_isr_nesting_count :=
                        mem_isr_nesting_count (mem_fault_state e) + 1 \<rparr> \<rparr>, False)"
  using assms
  by (simp add: ecc_isr_entry_def ECC_ISR_NESTING_MAX_def word_le_nat_alt)

lemma ecc_isr_level_restored:
  assumes "unat (mem_isr_nesting_count (mem_fault_state e)) < 8"
  shows "mem_isr_nesting_count (mem_fault_state (ecc_fault_isr e))
           = mem_isr_nesting_count (mem_fault_state e)"
  by (simp add: ecc_fault_isr_def ecc_isr_entry_below_max [OF assms])

lemma ecc_isr_nested_level:
  "unat (mem_isr_nesting_count (mem_fault_state e)) + length ps < 8
     \<Longrightarrow> mem_isr_nesting_count (mem_fault_state (ecc_isr_nested ps e))
           = mem_isr_nesting_count (mem_fault_state e)"
proof (induction ps arbitrary: e)
  case Nil
  then show ?case by (simp add: ecc_isr_level_restored)
next
  case (Cons p ps)
  let ?e1 = "e \<lparr> mem_fault_state :=
                  (mem_fault_state e)
                    \<lparr> mem_isr_nesting_count :=
                        mem_isr_nesting_count (mem_fault_state e) + 1 \<rparr> \<rparr>"
  from Cons.prems have lt: "unat (mem_isr_nesting_count (mem_fault_state e)) < 8" by simp
  have e: "ecc_isr_entry e = (?e1, False)"
    by (rule ecc_isr_entry_below_max [OF lt])
  have u: "unat (mem_isr_nesting_count (mem_fault_state ?e1))
             = unat (mem_isr_nesting_count (mem_fault_state e)) + 1"
    using level_step(2) [OF lt] by simp
  have b1: "unat (mem_isr_nesting_count (mem_fault_state ?e1)) + length ps < 8"
    using Cons.prems u by simp
  have b2: "unat (mem_isr_nesting_count (mem_fault_state (ecc_isr_assert ?e1))) + length ps < 8"
    using b1 by simp
  have i1: "mem_isr_nesting_count (mem_fault_state (ecc_isr_nested ps ?e1))
              = mem_isr_nesting_count (mem_fault_state e) + 1"
    using Cons.IH [OF b1] by simp
  have i2: "mem_isr_nesting_count (mem_fault_state (ecc_isr_nested ps (ecc_isr_assert ?e1)))
              = mem_isr_nesting_count (mem_fault_state e) + 1"
    using Cons.IH [OF b2] by simp
  show ?case
    by (cases p) (simp_all add: e i1 i2)
qed

lemma ecc_isr_at_max:
  assumes "mem_isr_nesting_count (mem_fault_state e) = ECC_ISR_NESTING_MAX"
  shows "ecc_fault_isr e
           = e \<lparr> mem_fault_state :=
                   (mem_fault_state e)
                     \<lparr> mem_fault_flag := 0xFF, mem_fault_flag_complement := 0x00 \<rparr> \<rparr>"
  using assms by (simp add: ecc_fault_isr_def ecc_isr_entry_def)

text \<open>
  Claim C6, as amended. For nested invocations of depth at most 8 (at most seven
  enclosing invocations around the innermost one, interrupted wherever), the nesting
  counter of the clock ISR and of the ECC ISR is back at 0 after the outermost exit. An
  invocation of the clock ISR that finds the counter at \<open>NEST_MAX\<close> writes \<open>0xFF\<close> to
  both halves of the flag, leaves the counter at \<open>NEST_MAX\<close> and returns; a read of the
  flag in that state returns the corruption error. An invocation of the ECC ISR that
  finds the counter at \<open>NEST_MAX\<close> writes the intact pair \<open>0xFF\<close>, \<open>0x00\<close> and leaves
  the counter alone: there is no violation, \<open>ecc_fault_detect_corruption\<close> is false and
  \<open>ecc_fault_is_active\<close> reports the fault.
\<close>

theorem isr_nesting:
  "(clk_isr_nesting_level c = 0 \<and> length ps < 8
      \<longrightarrow> clk_isr_nesting_level (clk_isr_nested ps c) = 0)
   \<and> (mem_isr_nesting_count (mem_fault_state e) = 0 \<and> length ps < 8
      \<longrightarrow> mem_isr_nesting_count (mem_fault_state (ecc_isr_nested ps e)) = 0)
   \<and> (clk_isr_nesting_level c = CLK_ISR_MAX_NESTING
      \<longrightarrow> clk_fault_flag (clk_event_handler_clk_loss_isr c) = 0xFF
        \<and> clk_fault_flag_complement (clk_event_handler_clk_loss_isr c) = 0xFF
        \<and> clk_isr_nesting_level (clk_event_handler_clk_loss_isr c) = CLK_ISR_MAX_NESTING
        \<and> clk_event_handler_get_fault_flag (clk_event_handler_clk_loss_isr c) True
            = (SAFETY_DCLS_ERROR, Some False))
   \<and> (mem_isr_nesting_count (mem_fault_state e) = ECC_ISR_NESTING_MAX
      \<longrightarrow> mem_fault_flag (mem_fault_state (ecc_fault_isr e)) = 0xFF
        \<and> mem_fault_flag_complement (mem_fault_state (ecc_fault_isr e)) = 0x00
        \<and> mem_isr_nesting_count (mem_fault_state (ecc_fault_isr e)) = ECC_ISR_NESTING_MAX
        \<and> \<not> ecc_fault_detect_corruption (ecc_fault_isr e)
        \<and> ecc_fault_is_active (ecc_fault_isr e))"
proof (intro conjI impI)
  assume "clk_isr_nesting_level c = 0 \<and> length ps < 8"
  then show "clk_isr_nesting_level (clk_isr_nested ps c) = 0"
    using clk_isr_nested_level [of c ps] by simp
next
  assume "mem_isr_nesting_count (mem_fault_state e) = 0 \<and> length ps < 8"
  then show "mem_isr_nesting_count (mem_fault_state (ecc_isr_nested ps e)) = 0"
    using ecc_isr_nested_level [of e ps] by simp
next
  assume a: "clk_isr_nesting_level c = CLK_ISR_MAX_NESTING"
  show "clk_fault_flag (clk_event_handler_clk_loss_isr c) = 0xFF"
    by (simp add: clk_isr_at_max [OF a])
  show "clk_fault_flag_complement (clk_event_handler_clk_loss_isr c) = 0xFF"
    by (simp add: clk_isr_at_max [OF a])
  show "clk_isr_nesting_level (clk_event_handler_clk_loss_isr c) = CLK_ISR_MAX_NESTING"
    by (simp add: clk_isr_at_max [OF a])
  show "clk_event_handler_get_fault_flag (clk_event_handler_clk_loss_isr c) True
            = (SAFETY_DCLS_ERROR, Some False)"
    by (simp add: clk_isr_at_max [OF a] clk_event_handler_get_fault_flag_def)
next
  assume a: "mem_isr_nesting_count (mem_fault_state e) = ECC_ISR_NESTING_MAX"
  show "mem_fault_flag (mem_fault_state (ecc_fault_isr e)) = 0xFF"
    by (simp add: ecc_isr_at_max [OF a])
  show "mem_fault_flag_complement (mem_fault_state (ecc_fault_isr e)) = 0x00"
    by (simp add: ecc_isr_at_max [OF a])
  show "mem_isr_nesting_count (mem_fault_state (ecc_fault_isr e)) = ECC_ISR_NESTING_MAX"
    by (simp add: ecc_isr_at_max [OF a] a)
  show "\<not> ecc_fault_detect_corruption (ecc_fault_isr e)"
    by (simp add: ecc_isr_at_max [OF a] ecc_fault_detect_corruption_def)
  show "ecc_fault_is_active (ecc_fault_isr e)"
    by (simp add: ecc_isr_at_max [OF a] ecc_fault_is_active_def)
qed


theorem isr_nesting_witness:
  "clk_isr_nesting_level clk_boot = 0
   \<and> length [AfterGuard, AfterAssert, AfterGuard, AfterAssert, AfterGuard, AfterAssert,
        AfterGuard] < 8
   \<and> clk_isr_nesting_level
        (clk_isr_nested [AfterGuard, AfterAssert, AfterGuard, AfterAssert, AfterGuard,
           AfterAssert, AfterGuard] clk_boot) = 0
   \<and> mem_isr_nesting_count (mem_fault_state ecc_after_init) = 0
   \<and> mem_isr_nesting_count (mem_fault_state
        (ecc_isr_nested [AfterGuard, AfterAssert, AfterGuard, AfterAssert, AfterGuard,
           AfterAssert, AfterGuard] ecc_after_init)) = 0
   \<and> clk_isr_nesting_level clk_at_max = CLK_ISR_MAX_NESTING
   \<and> clk_fault_flag (clk_event_handler_clk_loss_isr clk_at_max) = 0xFF
   \<and> clk_fault_flag_complement (clk_event_handler_clk_loss_isr clk_at_max) = 0xFF
   \<and> clk_event_handler_get_fault_flag (clk_event_handler_clk_loss_isr clk_at_max) True
       = (SAFETY_DCLS_ERROR, Some False)
   \<and> mem_isr_nesting_count (mem_fault_state ecc_at_max) = ECC_ISR_NESTING_MAX
   \<and> mem_fault_flag (mem_fault_state (ecc_fault_isr ecc_at_max)) = 0xFF
   \<and> mem_fault_flag_complement (mem_fault_state (ecc_fault_isr ecc_at_max)) = 0x00
   \<and> ecc_fault_is_active (ecc_fault_isr ecc_at_max)"
proof -
  let ?ps = "[AfterGuard, AfterAssert, AfterGuard, AfterAssert, AfterGuard, AfterAssert,
        AfterGuard]"
  have h1: "clk_isr_nesting_level clk_boot = 0 \<and> length ?ps < 8"
    by (simp add: clk_boot_def)
  have h2: "mem_isr_nesting_count (mem_fault_state ecc_after_init) = 0 \<and> length ?ps < 8"
    by (simp add: ecc_after_init_def)
  have h3: "clk_isr_nesting_level clk_at_max = CLK_ISR_MAX_NESTING"
    by (simp add: clk_at_max_def)
  have h4: "mem_isr_nesting_count (mem_fault_state ecc_at_max) = ECC_ISR_NESTING_MAX"
    by (simp add: ecc_at_max_def)
  from h1 h2 isr_nesting [of clk_boot ?ps ecc_after_init]
  have low: "clk_isr_nesting_level (clk_isr_nested ?ps clk_boot) = 0
      \<and> mem_isr_nesting_count (mem_fault_state (ecc_isr_nested ?ps ecc_after_init)) = 0"
    by blast
  from h3 h4 isr_nesting [of clk_at_max ?ps ecc_at_max]
  have high: "clk_fault_flag (clk_event_handler_clk_loss_isr clk_at_max) = 0xFF
      \<and> clk_fault_flag_complement (clk_event_handler_clk_loss_isr clk_at_max) = 0xFF
      \<and> clk_event_handler_get_fault_flag (clk_event_handler_clk_loss_isr clk_at_max) True
          = (SAFETY_DCLS_ERROR, Some False)
      \<and> mem_fault_flag (mem_fault_state (ecc_fault_isr ecc_at_max)) = 0xFF
      \<and> mem_fault_flag_complement (mem_fault_state (ecc_fault_isr ecc_at_max)) = 0x00
      \<and> ecc_fault_is_active (ecc_fault_isr ecc_at_max)"
    by blast
  from h1 h2 h3 h4 low high show ?thesis
    by blast
qed

text \<open>
  As the claim is worded, the ECC ISR entered at \<open>NEST_MAX\<close> would write both halves to
  the same value and later reads would report corruption. It writes \<open>0xFF\<close> and
  \<open>0x00\<close>, also as the ninth of nine nested invocations. In the clock ISR the
  violation of the ninth invocation is overwritten when the enclosing invocations, if
  interrupted before their own flag store, resume.
\<close>

theorem ecc_overflow_keeps_dcls:
  "mem_isr_nesting_count (mem_fault_state ecc_at_max) = ECC_ISR_NESTING_MAX
   \<and> mem_fault_flag (mem_fault_state (ecc_fault_isr ecc_at_max))
       \<noteq> mem_fault_flag_complement (mem_fault_state (ecc_fault_isr ecc_at_max))
   \<and> \<not> ecc_fault_detect_corruption (ecc_fault_isr ecc_at_max)
   \<and> \<not> ecc_fault_detect_corruption
         (ecc_isr_nested [AfterAssert, AfterAssert, AfterAssert, AfterAssert, AfterAssert,
            AfterAssert, AfterAssert, AfterAssert] ecc_after_init)
   \<and> clk_event_handler_get_fault_flag
        (clk_isr_nested [AfterGuard, AfterGuard, AfterGuard, AfterGuard, AfterGuard,
           AfterGuard, AfterGuard, AfterGuard] clk_boot) True = (SAFETY_OK, Some True)"
  by code_simp

subsection \<open>Reading a flag whose halves disagree\<close>

text \<open>
  Claim C5, as amended. When the two halves of a flag do not XOR to \<open>0xFF\<close>:
  \<open>clk_event_handler_get_fault_flag\<close> stores \<open>false\<close> through its output pointer and
  returns the distinct result \<open>SAFETY_DCLS_ERROR\<close>; \<open>ecc_fault_is_active\<close> returns
  \<open>false\<close>, the corruption being reported by \<open>ecc_fault_detect_corruption\<close> only;
  \<open>fault_aggregate\<close>, when not busy and given a non-\<open>NULL\<close> pointer, returns \<open>false\<close>
  with nothing stored through the pointer, the FSM status untouched, the attempt counted
  and the busy gate released.
\<close>

theorem dcls_mismatch_readers:
  "(clk_fault_flag c XOR clk_fault_flag_complement c \<noteq> 0xFF
      \<longrightarrow> clk_event_handler_get_fault_flag c True = (SAFETY_DCLS_ERROR, Some False))
   \<and> (mem_fault_flag (mem_fault_state e) XOR mem_fault_flag_complement (mem_fault_state e)
        \<noteq> 0xFF
      \<longrightarrow> \<not> ecc_fault_is_active e \<and> ecc_fault_detect_corruption e)
   \<and> (\<not> g_aggregator_busy a
        \<and> (\<not> VERIFY_FAULT_FLAG (pwr_fault (fault_flags (g_safety_status g)))
                (pwr_fault_cmp (fault_flags (g_safety_status g)))
           \<or> \<not> VERIFY_FAULT_FLAG (clk_fault (fault_flags (g_safety_status g)))
                (clk_fault_cmp (fault_flags (g_safety_status g)))
           \<or> \<not> VERIFY_FAULT_FLAG (mem_fault (fault_flags (g_safety_status g)))
                (mem_fault_cmp (fault_flags (g_safety_status g))))
      \<longrightarrow> fault_aggregate a g True
          = (False,
             a \<lparr> g_aggregator_busy := False,
                 g_aggregation_attempts := g_aggregation_attempts a + 1 \<rparr>,
             g, None))"
proof (intro conjI impI)
  assume "clk_fault_flag c XOR clk_fault_flag_complement c \<noteq> 0xFF"
  then show "clk_event_handler_get_fault_flag c True = (SAFETY_DCLS_ERROR, Some False)"
    by (simp add: clk_event_handler_get_fault_flag_def Let_def)
next
  assume m: "mem_fault_flag (mem_fault_state e) XOR mem_fault_flag_complement (mem_fault_state e)
        \<noteq> 0xFF"
  from m show "\<not> ecc_fault_is_active e"
    by (simp add: ecc_fault_is_active_def Let_def)
  from m show "ecc_fault_detect_corruption e"
    by (simp add: ecc_fault_detect_corruption_def Let_def)
next
  assume "\<not> g_aggregator_busy a
        \<and> (\<not> VERIFY_FAULT_FLAG (pwr_fault (fault_flags (g_safety_status g)))
                (pwr_fault_cmp (fault_flags (g_safety_status g)))
           \<or> \<not> VERIFY_FAULT_FLAG (clk_fault (fault_flags (g_safety_status g)))
                (clk_fault_cmp (fault_flags (g_safety_status g)))
           \<or> \<not> VERIFY_FAULT_FLAG (mem_fault (fault_flags (g_safety_status g)))
                (mem_fault_cmp (fault_flags (g_safety_status g))))"
  then show "fault_aggregate a g True
          = (False,
             a \<lparr> g_aggregator_busy := False,
                 g_aggregation_attempts := g_aggregation_attempts a + 1 \<rparr>,
             g, None)"
    by (auto simp add: fault_aggregate_def fsm_get_status_def Let_def)
qed


theorem dcls_mismatch_readers_witness:
  "clk_fault_flag (clk_event_handler_clk_loss_isr clk_at_max)
     XOR clk_fault_flag_complement (clk_event_handler_clk_loss_isr clk_at_max) \<noteq> 0xFF
   \<and> clk_event_handler_get_fault_flag (clk_event_handler_clk_loss_isr clk_at_max) True
       = (SAFETY_DCLS_ERROR, Some False)
   \<and> mem_fault_flag (mem_fault_state ecc_corrupt)
       XOR mem_fault_flag_complement (mem_fault_state ecc_corrupt) \<noteq> 0xFF
   \<and> \<not> ecc_fault_is_active ecc_corrupt
   \<and> ecc_fault_detect_corruption ecc_corrupt
   \<and> \<not> g_aggregator_busy aggregator_boot
   \<and> \<not> VERIFY_FAULT_FLAG (clk_fault (fault_flags (g_safety_status s6_corrupted)))
          (clk_fault_cmp (fault_flags (g_safety_status s6_corrupted)))
   \<and> fault_aggregate aggregator_boot s6_corrupted True
       = (False,
          aggregator_boot \<lparr> g_aggregator_busy := False,
                            g_aggregation_attempts := g_aggregation_attempts aggregator_boot + 1 \<rparr>,
          s6_corrupted, None)"
proof -
  have h1: "clk_fault_flag (clk_event_handler_clk_loss_isr clk_at_max)
     XOR clk_fault_flag_complement (clk_event_handler_clk_loss_isr clk_at_max) \<noteq> 0xFF"
    by code_simp
  have h2: "mem_fault_flag (mem_fault_state ecc_corrupt)
       XOR mem_fault_flag_complement (mem_fault_state ecc_corrupt) \<noteq> 0xFF"
    by code_simp
  have h3: "\<not> g_aggregator_busy aggregator_boot"
    by (simp add: aggregator_boot_def)
  have h4: "\<not> VERIFY_FAULT_FLAG (clk_fault (fault_flags (g_safety_status s6_corrupted)))
          (clk_fault_cmp (fault_flags (g_safety_status s6_corrupted)))"
    by code_simp
  from h1 h2 h3 h4
    dcls_mismatch_readers [of "clk_event_handler_clk_loss_isr clk_at_max" ecc_corrupt
      aggregator_boot s6_corrupted]
  show ?thesis
    by blast
qed

text \<open>
  As the claim is worded, every reader would take the flag for asserted and hand its
  caller a distinct error. The clock reader reports \<open>false\<close>, and \<open>ecc_fault_is_active\<close>
  returns for a corrupted pair what it returns for an intact clear one.
\<close>

theorem dcls_mismatch_reads_as_no_fault:
  "clk_fault_flag (clk_event_handler_clk_loss_isr clk_at_max)
     XOR clk_fault_flag_complement (clk_event_handler_clk_loss_isr clk_at_max) \<noteq> 0xFF
   \<and> snd (clk_event_handler_get_fault_flag (clk_event_handler_clk_loss_isr clk_at_max) True)
       = Some False
   \<and> mem_fault_flag (mem_fault_state ecc_corrupt)
       XOR mem_fault_flag_complement (mem_fault_state ecc_corrupt) \<noteq> 0xFF
   \<and> ecc_fault_is_active ecc_corrupt = False
   \<and> ecc_fault_is_active ecc_corrupt = ecc_fault_is_active ecc_after_init"
  by code_simp

subsection \<open>Clearing the memory fault flag\<close>

text \<open>
  Claim C10. \<open>ecc_fault_clear\<close> returns true exactly when the memory flag pair is
  intact and asserted, and then leaves the pair at \<open>0x00\<close>, \<open>0xFF\<close>. When the flag is
  already clear, or the pair fails its check, it returns false and changes nothing: so
  clearing an already-clear flag reports failure.
\<close>

theorem ecc_fault_clear_only_when_active:
  "(fst (ecc_fault_clear e)
      \<longleftrightarrow> mem_fault_flag (mem_fault_state e) XOR mem_fault_flag_complement (mem_fault_state e)
            = 0xFF
          \<and> mem_fault_flag (mem_fault_state e) \<noteq> 0)
   \<and> (fst (ecc_fault_clear e)
      \<longrightarrow> mem_fault_flag (mem_fault_state (snd (ecc_fault_clear e))) = 0x00
        \<and> mem_fault_flag_complement (mem_fault_state (snd (ecc_fault_clear e))) = 0xFF)
   \<and> (\<not> fst (ecc_fault_clear e) \<longrightarrow> snd (ecc_fault_clear e) = e)"
  by (simp add: ecc_fault_clear_def ecc_fault_is_active_def Let_def)


theorem ecc_fault_clear_only_when_active_witness:
  "fst (ecc_fault_clear (ecc_fault_isr ecc_after_init))
   \<and> mem_fault_flag (mem_fault_state (snd (ecc_fault_clear (ecc_fault_isr ecc_after_init))))
       = 0x00
   \<and> mem_fault_flag_complement
        (mem_fault_state (snd (ecc_fault_clear (ecc_fault_isr ecc_after_init)))) = 0xFF
   \<and> \<not> fst (ecc_fault_clear ecc_after_init)
   \<and> snd (ecc_fault_clear ecc_after_init) = ecc_after_init
   \<and> \<not> fst (ecc_fault_clear ecc_corrupt)
   \<and> snd (ecc_fault_clear ecc_corrupt) = ecc_corrupt"
proof -
  have h1: "fst (ecc_fault_clear (ecc_fault_isr ecc_after_init))"
    by code_simp
  have h2: "\<not> fst (ecc_fault_clear ecc_after_init)"
    by code_simp
  have h3: "\<not> fst (ecc_fault_clear ecc_corrupt)"
    by code_simp
  from h1 h2 h3
    ecc_fault_clear_only_when_active [of "ecc_fault_isr ecc_after_init"]
    ecc_fault_clear_only_when_active [of ecc_after_init]
    ecc_fault_clear_only_when_active [of ecc_corrupt]
  show ?thesis
    by blast
qed

section \<open>The clock recovery service\<close>

text \<open>
  The \<open>switch\<close> for a given sampled value: in \<open>FAULT_ACTIVE\<close> with the value true, the
  timeout counter is incremented while the incremented value stays below
  \<open>recovery_timeout_ticks\<close>; from 9 it goes to 10, and the service returns to \<open>IDLE\<close>
  with the counter reset.
\<close>

lemma fault_active_counts:
  assumes "clk_service_state s = CLK_SERVICE_STATE_FAULT_ACTIVE"
    and "unat (clk_recovery_timeout_counter s) < 9"
  shows "clk_service_step True s
           = s \<lparr> clk_recovery_timeout_counter := clk_recovery_timeout_counter s + 1 \<rparr>"
proof -
  have "unat (clk_recovery_timeout_counter s) + unat (1 :: 32 word) < 2 ^ LENGTH(32)"
    using assms(2) by simp
  then have "unat (clk_recovery_timeout_counter s + 1) = unat (clk_recovery_timeout_counter s) + 1"
    by (simp add: unat_add_lem [THEN iffD1])
  then have "\<not> 10 \<le> clk_recovery_timeout_counter s + 1"
    using assms(2) by (simp add: word_le_nat_alt)
  then show ?thesis
    using assms(1)
    by (simp add: clk_service_step_def Let_def clk_service_state_defs recovery_timeout_ticks_def)
qed

lemma fault_active_times_out:
  assumes "clk_service_state s = CLK_SERVICE_STATE_FAULT_ACTIVE"
    and "clk_recovery_timeout_counter s = 9"
  shows "clk_service_step a s
           = s \<lparr> clk_service_state := CLK_SERVICE_STATE_IDLE,
                 clk_recovery_timeout_counter := 0 \<rparr>"
  using assms
  by (simp add: clk_service_step_def Let_def clk_service_state_defs recovery_timeout_ticks_def)


text \<open>
  The task as written does not take the value from the hardware: it is true while the
  task's own call counter, once incremented, is at most 5. Whatever sequence of calls
  the service receives from boot, the timeout counter in \<open>FAULT_ACTIVE\<close> stays at most
  6, and the timeout branch is never due.
\<close>

lemma counter_bounded_boot: "counter_bounded clk_service_boot"
  by (simp add: counter_bounded_def clk_service_boot_def)

lemma counter_bounded_entry:
  "clk_recovery_timeout_counter s = 0 \<Longrightarrow> counter_bounded s"
  by (simp add: counter_bounded_def)

lemma counter_bounded_elsewhere:
  "clk_service_state s \<noteq> CLK_SERVICE_STATE_FAULT_ACTIVE \<Longrightarrow> counter_bounded s"
  by (simp add: counter_bounded_def)

lemma counter_bounded_le_6:
  assumes "counter_bounded s" and "clk_service_state s = CLK_SERVICE_STATE_FAULT_ACTIVE"
  shows "unat (clk_recovery_timeout_counter s) \<le> 6"
  using assms by (auto simp add: counter_bounded_def)

lemma unat_succ_small:
  fixes c :: "32 word"
  assumes "unat c \<le> 6"
  shows "unat (c + 1) = unat c + 1"
proof -
  have "unat c + unat (1 :: 32 word) < 2 ^ LENGTH(32)"
    using assms by simp
  then show ?thesis
    by (simp add: unat_add_lem [THEN iffD1])
qed

lemma bounded_not_due:
  assumes "counter_bounded s"
  shows "\<not> timeout_due s"
proof
  assume d: "timeout_due s"
  then have fa: "clk_service_state s = CLK_SERVICE_STATE_FAULT_ACTIVE"
    by (simp add: timeout_due_def)
  have le: "unat (clk_recovery_timeout_counter s) \<le> 6"
    by (rule counter_bounded_le_6 [OF assms fa])
  have "unat (clk_recovery_timeout_counter s + 1) = unat (clk_recovery_timeout_counter s) + 1"
    by (rule unat_succ_small [OF le])
  then have "\<not> 10 \<le> clk_recovery_timeout_counter s + 1"
    using le by (simp add: word_le_nat_alt)
  with d show False
    by (simp add: timeout_due_def recovery_timeout_ticks_def)
qed

lemma step_bounded_not_fa:
  assumes "clk_service_state s \<noteq> CLK_SERVICE_STATE_FAULT_ACTIVE"
  shows "counter_bounded (clk_service_step a s)"
  using assms
  by (simp add: clk_service_step_def Let_def counter_bounded_def clk_service_state_defs)

lemma task_bounded:
  assumes b: "counter_bounded s"
  shows "counter_bounded (clk_service_task s)"
proof (cases "clk_service_state s = CLK_SERVICE_STATE_FAULT_ACTIVE")
  case False
  then have "clk_service_state (s \<lparr> tick_count := tick_count s + 1 \<rparr>)
               \<noteq> CLK_SERVICE_STATE_FAULT_ACTIVE"
    by simp
  then show ?thesis
    unfolding clk_service_task_def Let_def by (rule step_bounded_not_fa)
next
  case fa: True
  let ?t = "tick_count s + 1"
  let ?c = "clk_recovery_timeout_counter s + 1"
  have le: "unat (clk_recovery_timeout_counter s) \<le> 6"
    by (rule counter_bounded_le_6 [OF b fa])
  have cu: "unat ?c = unat (clk_recovery_timeout_counter s) + 1"
    by (rule unat_succ_small [OF le])
  have nd: "\<not> 10 \<le> ?c"
    using le cu by (simp add: word_le_nat_alt)
  show ?thesis
  proof (cases "5 < ?t")
    case True
    then show ?thesis
      using fa nd
      by (simp add: clk_service_task_def clk_service_step_def Let_def counter_bounded_def
          clk_service_state_defs recovery_timeout_ticks_def)
  next
    case False
    then have t5: "unat ?t \<le> 5"
      by (simp add: word_less_nat_alt)
    have "unat ?c \<le> unat ?t + 1"
    proof (cases "clk_recovery_timeout_counter s = 0")
      case True
      then show ?thesis by simp
    next
      case False
      with b fa have h: "unat (tick_count s) \<le> 5
          \<and> unat (clk_recovery_timeout_counter s) \<le> unat (tick_count s) + 1"
        by (simp add: counter_bounded_def)
      then have "unat (tick_count s) \<le> 6" by simp
      then have "unat ?t = unat (tick_count s) + 1"
        by (rule unat_succ_small)
      with h cu show ?thesis by simp
    qed
    with t5 have "counter_bounded
        (s \<lparr> tick_count := ?t, clk_recovery_timeout_counter := ?c \<rparr>)"
      by (simp add: counter_bounded_def)
    moreover have "clk_service_task s
        = s \<lparr> tick_count := ?t, clk_recovery_timeout_counter := ?c \<rparr>"
      using fa nd False
      by (simp add: clk_service_task_def clk_service_step_def Let_def
          clk_service_state_defs recovery_timeout_ticks_def)
    ultimately show ?thesis by simp
  qed
qed

lemma apply_bounded:
  assumes "counter_bounded s"
  shows "counter_bounded (clk_service_apply x s)"
proof (cases x)
  case ServiceInit
  then show ?thesis
    by (simp add: clk_service_init_def counter_bounded_def)
next
  case HandleFault
  then show ?thesis
    using assms by (simp add: clk_service_handle_fault_def counter_bounded_def)
next
  case RequestRecovery
  then show ?thesis
    using assms
    by (auto simp add: clk_service_request_recovery_def counter_bounded_def
        clk_service_state_defs)
next
  case Task
  then show ?thesis
    using assms by (simp add: task_bounded)
next
  case ResetStatistics
  then show ?thesis
    using assms by (simp add: clk_service_reset_statistics_def counter_bounded_def)
qed

lemma run_bounded:
  "counter_bounded s \<Longrightarrow> counter_bounded (clk_service_run xs s)"
  by (induction xs arbitrary: s) (simp_all add: apply_bounded)

lemma timeout_never_due: "\<not> timeout_due (clk_service_run xs clk_service_boot)"
  by (rule bounded_not_due [OF run_bounded [OF counter_bounded_boot]])

text \<open>
  Claim C7. With the hardware fault signal asserted throughout, a service in
  \<open>FAULT_ACTIVE\<close> would count its timeout up on each tick, return to \<open>IDLE\<close> on the
  tenth and have \<open>recovery_failures\<close> grow by 1. Put in \<open>FAULT_ACTIVE\<close> at boot by
  \<open>clk_service_handle_fault\<close> and called ten times, the task counts to 5, drops to
  \<open>RECOVERY_PENDING\<close> at the sixth call with the counter at 6, and at the tenth call is
  still there; the eleventh confirms the recovery. It never returns to \<open>IDLE\<close> by
  timeout.
\<close>

theorem s4_never_times_out:
  "clk_service_state (clk_service_task_calls 5 s4_fault_active)
     = CLK_SERVICE_STATE_FAULT_ACTIVE
   \<and> clk_recovery_timeout_counter (clk_service_task_calls 5 s4_fault_active) = 5
   \<and> clk_service_state (clk_service_task_calls 6 s4_fault_active)
       = CLK_SERVICE_STATE_RECOVERY_PENDING
   \<and> clk_recovery_timeout_counter (clk_service_task_calls 6 s4_fault_active) = 6
   \<and> clk_service_state (clk_service_task_calls 10 s4_fault_active)
       = CLK_SERVICE_STATE_RECOVERY_PENDING
   \<and> clk_service_state (clk_service_task_calls 10 s4_fault_active) \<noteq> CLK_SERVICE_STATE_IDLE
   \<and> clk_recovery_timeout_counter (clk_service_task_calls 10 s4_fault_active) = 6
   \<and> clk_service_state (clk_service_task_calls 11 s4_fault_active)
       = CLK_SERVICE_STATE_RECOVERY_CONFIRMED"
  by code_simp


section \<open>Diagnostic coverage and fault rate\<close>

text \<open>
  The stored percentage never exceeds 100, and it is the floor of
  \<open>detected*100/(detected+undetected)\<close> whenever neither the product nor the sum
  passes 32 bits.
\<close>

lemma dc_percent_of_le_100: "dc_percent_of d u \<le> 100"
  by (simp add: dc_percent_of_def Let_def word_le_nat_alt word_less_nat_alt)

lemma dc_percent_of_exact:
  assumes m: "unat d * 100 < 2 ^ 32" and a: "unat d + unat u < 2 ^ 32"
  shows "unat (dc_percent_of d u)
           = (if unat d + unat u = 0 then 0 else (unat d * 100) div (unat d + unat u))"
proof (cases "d + u = 0")
  case True
  then have "unat (d + u) = 0" by simp
  moreover have "unat (d + u) = unat d + unat u"
    using a by (simp add: unat_add_lem [THEN iffD1])
  ultimately show ?thesis
    using True by (simp add: dc_percent_of_def)
next
  case False
  have s: "unat (d + u) = unat d + unat u"
    using a by (simp add: unat_add_lem [THEN iffD1])
  have p: "unat (d * 100) = unat d * 100"
    using m by (simp add: unat_mult_lem [THEN iffD1])
  have nz: "unat d + unat u \<noteq> 0"
    using False s by (metis unat_eq_0)
  have q: "unat ((d * 100) div (d + u)) = (unat d * 100) div (unat d + unat u)"
    by (simp add: unat_div s p)
  have "unat d * 100 \<le> 100 * (unat d + unat u)" by simp
  then have le: "(unat d * 100) div (unat d + unat u) \<le> 100"
    using nz by (metis div_le_mono div_mult_self_is_m neq0_conv nonzero_mult_div_cancel_right)
  have c: "unat (ucast ((d * 100) div (d + u)) :: 8 word) = (unat d * 100) div (unat d + unat u)"
    using le q by (simp add: unsigned_ucast_eq take_bit_nat_eq_self)
  have "\<not> (100 :: 8 word) < ucast ((d * 100) div (d + u))"
    using le c by (simp add: word_less_nat_alt)
  then show ?thesis
    using False nz c by (simp add: dc_percent_of_def Let_def)
qed

text \<open>
  Claim C8. For all counter values the stored result would be the floor of
  \<open>detected*100/(detected+undetected)\<close>. With \<open>detected = 42949673\<close> and
  \<open>undetected = 0\<close> the 32-bit product \<open>detected * 100\<close> wraps to 4 and
  \<open>fault_stats_calculate_dc\<close> stores 0, where the floor is 100.
\<close>

theorem dc_wraps_for_large_counters:
  "vdd_faults_detected (g_fault_stats stats_dc_overflow) = 42949673
   \<and> vdd_faults_undetected (g_fault_stats stats_dc_overflow) = 0
   \<and> fault_stats_calculate_dc stats_dc_overflow FAULT_TYPE_VDD True = (True, Some 0)
   \<and> (42949673 * 100) div (42949673 + 0) = (100 :: nat)"
proof -
  have counters: "vdd_faults_detected (g_fault_stats stats_dc_overflow) = 42949673
      \<and> vdd_faults_undetected (g_fault_stats stats_dc_overflow) = 0"
    by (simp add: stats_dc_overflow_def stats_boot_def)
  have stored: "fault_stats_calculate_dc stats_dc_overflow FAULT_TYPE_VDD True = (True, Some 0)"
    by (simp add: fault_stats_calculate_dc_def dc_percent_of_def stats_dc_overflow_def
        stats_boot_def Let_def fault_type_defs)
  have floor: "(42949673 * 100) div (42949673 + 0) = (100 :: nat)"
    by simp
  from counters stored floor show ?thesis
    by blast
qed

text \<open>With no uptime recorded the rate is stored as 0 and nothing is divided.\<close>

lemma fault_rate_zero_uptime:
  "uptime_ms (g_fault_stats st) = 0
     \<Longrightarrow> fault_stats_get_fault_rate_per_hour st True = (True, Some 0)"
  by (simp add: fault_stats_get_fault_rate_per_hour_def Let_def)

text \<open>
  Claim C9. The rate would be \<open>total_detected * 3600000 / uptime_ms\<close>. With 1000
  detected faults in exactly one hour of uptime \<open>fault_stats_get_fault_rate_per_hour\<close>
  stores 1, not 1000: the multiplier in the source is 3600. With 5 faults in half an
  hour it stores 0: the zero test is on the uptime in whole hours.
\<close>

theorem fault_rate_uses_3600:
  "fault_stats_get_total_faults stats_one_hour = 1000
   \<and> uptime_ms (g_fault_stats stats_one_hour) = 3600000
   \<and> fault_stats_get_fault_rate_per_hour stats_one_hour True = (True, Some 1)
   \<and> (1000 * 3600000) div (3600000 :: nat) = 1000
   \<and> fault_stats_get_total_faults stats_half_hour = 5
   \<and> uptime_ms (g_fault_stats stats_half_hour) = 1800000
   \<and> fault_stats_get_fault_rate_per_hour stats_half_hour True = (True, Some 0)
   \<and> (5 * 3600000) div (1800000 :: nat) = 10"
proof -
  have hour: "fault_stats_get_total_faults stats_one_hour = 1000
      \<and> uptime_ms (g_fault_stats stats_one_hour) = 3600000"
    by (simp add: fault_stats_get_total_faults_def stats_one_hour_def stats_boot_def)
  have hour_rate: "fault_stats_get_fault_rate_per_hour stats_one_hour True = (True, Some 1)"
    by (simp add: fault_stats_get_fault_rate_per_hour_def fault_stats_get_total_faults_def
        stats_one_hour_def stats_boot_def Let_def)
  have half: "fault_stats_get_total_faults stats_half_hour = 5
      \<and> uptime_ms (g_fault_stats stats_half_hour) = 1800000"
    by (simp add: fault_stats_get_total_faults_def stats_half_hour_def stats_boot_def)
  have half_rate: "fault_stats_get_fault_rate_per_hour stats_half_hour True = (True, Some 0)"
    by (simp add: fault_stats_get_fault_rate_per_hour_def fault_stats_get_total_faults_def
        stats_half_hour_def stats_boot_def Let_def)
  have claimed: "(1000 * 3600000) div (3600000 :: nat) = 1000
      \<and> (5 * 3600000) div (1800000 :: nat) = 10"
    by simp
  from hour hour_rate half half_rate claimed show ?thesis
    by blast
qed

end
